theory Spec2Isabelle
  imports Main
begin

section \<open>JavaScript strings and values\<close>

text \<open>
  A JavaScript string is a sequence of UTF-16 code units; it is modelled as the list of
  their numeric values. \<open>js\<close> embeds an ASCII literal. The stream handler of
  \<^verbatim>\<open>openProgressStream\<close> works on \<^verbatim>\<open>chunk.toString()\<close>; for ASCII bytes that is one
  code unit per byte.
\<close>

type_synonym jsstring = "nat list"

definition js :: "string \<Rightarrow> jsstring" where
  "js s = map of_char s"

text \<open>
  The values that \<^verbatim>\<open>JSON.parse\<close> returns, and \<^verbatim>\<open>undefined\<close> for a missing property.
  An object is the list of its properties in insertion order. Numbers are only stored
  and forwarded by the code modelled here, never computed with.
\<close>

datatype jsval =
    Undefined
  | Null
  | Bool bool
  | Num int
  | Str jsstring
  | Arr "jsval list"
  | Obj "(jsstring \<times> jsval) list"

text \<open>\<^verbatim>\<open>Boolean(v)\<close>: the values that count as true in \<^verbatim>\<open>if (v)\<close>, \<^verbatim>\<open>!v\<close>, \<^verbatim>\<open>a && b\<close>, \<^verbatim>\<open>a || b\<close>.\<close>

fun truthy :: "jsval \<Rightarrow> bool" where
  "truthy Undefined = False"
| "truthy Null = False"
| "truthy (Bool b) = b"
| "truthy (Num n) = (n \<noteq> 0)"
| "truthy (Str s) = (s \<noteq> [])"
| "truthy (Arr xs) = True"
| "truthy (Obj kvs) = True"

text \<open>
  Property access \<^verbatim>\<open>v.k\<close> for the property names used in the source
  (\<^verbatim>\<open>type\<close>, \<^verbatim>\<open>ok\<close>, \<^verbatim>\<open>error\<close>, \<^verbatim>\<open>detail\<close>, \<^verbatim>\<open>jobId\<close>), none of which a string, number,
  boolean or array has. On \<^verbatim>\<open>null\<close> and \<^verbatim>\<open>undefined\<close> JavaScript throws a TypeError;
  every such access in the source is either guarded (\<^verbatim>\<open>result && result.ok\<close>,
  \<^verbatim>\<open>result?.error\<close>) or inside the \<^verbatim>\<open>try\<close> whose \<^verbatim>\<open>catch\<close> ignores the line, and an
  \<^verbatim>\<open>undefined\<close> type matches no branch there either, so \<open>Undefined\<close> is returned.
\<close>

fun get_prop :: "jsval \<Rightarrow> jsstring \<Rightarrow> jsval" where
  "get_prop (Obj kvs) k = (case map_of kvs k of None \<Rightarrow> Undefined | Some v \<Rightarrow> v)"
| "get_prop v k = Undefined"

text \<open>The operator \<^verbatim>\<open>||\<close>: the left operand when it counts as true, else the right one.\<close>

definition or_else :: "jsval \<Rightarrow> jsval \<Rightarrow> jsval" where
  "or_else a b = (if truthy a then a else b)"

text \<open>Setting a property: an existing key keeps its position, a new key goes last.\<close>

fun obj_set :: "(jsstring \<times> jsval) list \<Rightarrow> jsstring \<Rightarrow> jsval \<Rightarrow> (jsstring \<times> jsval) list" where
  "obj_set [] k v = [(k, v)]"
| "obj_set ((k', v') # kvs) k v =
     (if k' = k then (k, v) # kvs else (k', v') # obj_set kvs k v)"

text \<open>
  The object literal \<^verbatim>\<open>{ jobId, ...payload }\<close>: the property \<^verbatim>\<open>jobId\<close> first, then the own
  properties of \<^verbatim>\<open>payload\<close> copied over it in order. Spreading a value that is not an
  object (or an array, whose index keys the relay never sees because the branch needs
  a \<^verbatim>\<open>type\<close> property) copies nothing.
\<close>

fun spread_jobId :: "jsstring \<Rightarrow> jsval \<Rightarrow> jsval" where
  "spread_jobId jobId (Obj kvs) =
     Obj (foldl (\<lambda>acc (k, v). obj_set acc k v) [(js ''jobId'', Str jobId)] kvs)"
| "spread_jobId jobId v = Obj [(js ''jobId'', Str jobId)]"

text \<open>An exception value: \<^verbatim>\<open>new Error(message)\<close>, of which the code reads \<^verbatim>\<open>err.message\<close>.\<close>

datatype js_error = Error jsstring

fun message_of :: "js_error \<Rightarrow> jsstring" where
  "message_of (Error m) = m"

subsection \<open>String operations\<close>

text \<open>
  The code units \<^verbatim>\<open>String.prototype.trim\<close> strips: WhiteSpace and LineTerminator of
  ECMAScript (TAB, LF, VT, FF, CR, SP, NBSP, the Unicode space separators, LS, PS, BOM).
\<close>

definition is_js_space :: "nat \<Rightarrow> bool" where
  "is_js_space c \<longleftrightarrow>
     c = 0x09 \<or> c = 0x0A \<or> c = 0x0B \<or> c = 0x0C \<or> c = 0x0D \<or> c = 0x20 \<or> c = 0xA0 \<or>
     c = 0x1680 \<or> (0x2000 \<le> c \<and> c \<le> 0x200A) \<or> c = 0x2028 \<or> c = 0x2029 \<or>
     c = 0x202F \<or> c = 0x205F \<or> c = 0x3000 \<or> c = 0xFEFF"

definition trim :: "jsstring \<Rightarrow> jsstring" where
  "trim s = rev (dropWhile is_js_space (rev (dropWhile is_js_space s)))"

text \<open>\<^verbatim>\<open>s.indexOf(c)\<close> for a single code unit; \<open>None\<close> is the result \<^verbatim>\<open>-1\<close>.\<close>

fun indexOf :: "jsstring \<Rightarrow> nat \<Rightarrow> nat option" where
  "indexOf [] c = None"
| "indexOf (x # xs) c = (if x = c then Some 0 else map_option Suc (indexOf xs c))"

definition startsWith :: "jsstring \<Rightarrow> jsstring \<Rightarrow> bool" where
  "startsWith s p \<longleftrightarrow> take (length p) s = p"

section \<open>Job event relay: the stream handler of openProgressStream\<close>

text \<open>
  What the handler does with a parsed line: it sends a notification to the renderer
  (\<^verbatim>\<open>mainWindow.webContents.send(channel, data)\<close>) or starts the result fetch
  (\<^verbatim>\<open>fetchResultWithRetry(jobId)\<close>). The window is the notification sink, an external
  collaborator: \<^verbatim>\<open>mainWindow\<close> is taken to be a live window, so that \<^verbatim>\<open>send\<close> does not
  throw, and a notification is the call of \<^verbatim>\<open>send\<close>.
\<close>

datatype relay_action =
    Send jsstring jsval
  | FetchResult jsstring

text \<open>
  The body of the \<^verbatim>\<open>try\<close> after \<^verbatim>\<open>JSON.parse\<close> (index.js lines 444 to 474): three
  \<^verbatim>\<open>if\<close> statements on \<^verbatim>\<open>payload.type\<close>, in the order of the source.
\<close>

definition handle_payload :: "jsstring \<Rightarrow> jsval \<Rightarrow> relay_action list" where
  "handle_payload jobId payload =
     (if get_prop payload (js ''type'') = Str (js ''progress'')
      then [Send (js ''pdf2zh:progress'') (spread_jobId jobId payload)] else []) @
     (if get_prop payload (js ''type'') = Str (js ''done'')
      then [FetchResult jobId] else []) @
     (if get_prop payload (js ''type'') = Str (js ''error'')
      then [Send (js ''pdf2zh:error'') (spread_jobId jobId payload)] else [])"

text \<open>
  One line of the buffer (lines 437 to 477, without the buffer update). \<open>parse\<close> is
  \<^verbatim>\<open>JSON.parse\<close>, a built-in of the language taken as a parameter: it returns the value
  or the SyntaxError it throws. The \<^verbatim>\<open>catch\<close> ignores the error.
\<close>

definition handle_line :: "(jsstring \<Rightarrow> js_error + jsval) \<Rightarrow> jsstring \<Rightarrow> jsstring \<Rightarrow> relay_action list" where
  "handle_line parse jobId line =
     (if \<not> startsWith line (js ''data:'') then []
      else let jsonStr = trim (drop 5 line) in
        if jsonStr = [] then []
        else (case parse jsonStr of
                Inl err \<Rightarrow> []
              | Inr payload \<Rightarrow> handle_payload jobId payload))"

text \<open>
  The loop \<^verbatim>\<open>while ((index = buffer.indexOf('\n')) >= 0)\<close>: it returns the buffer that is
  left and the actions of the lines it consumed, in order.
\<close>

function drain_lines :: "(jsstring \<Rightarrow> js_error + jsval) \<Rightarrow> jsstring \<Rightarrow> jsstring \<Rightarrow> jsstring \<times> relay_action list" where
  "drain_lines parse jobId buffer =
     (case indexOf buffer 0x0A of
        None \<Rightarrow> (buffer, [])
      | Some index \<Rightarrow>
          (let line = trim (take index buffer);
               rest = drain_lines parse jobId (drop (index + 1) buffer)
           in (fst rest, handle_line parse jobId line @ snd rest)))"
  by pat_completeness auto
termination
proof (relation "measure (\<lambda>(parse, jobId, buffer). length buffer)")
  show "wf (measure (\<lambda>(parse, jobId, buffer). length buffer))"
    by simp
next
  fix parse :: "jsstring \<Rightarrow> js_error + jsval" and jobId buffer :: jsstring and index :: nat
  assume "indexOf buffer 0x0A = Some index"
  then have "buffer \<noteq> []"
    by auto
  then show "((parse, jobId, drop (index + 1) buffer), (parse, jobId, buffer))
             \<in> measure (\<lambda>(parse, jobId, buffer). length buffer)"
    by simp
qed

declare drain_lines.simps [simp del]

text \<open>The \<^verbatim>\<open>data\<close> handler: \<^verbatim>\<open>buffer += chunk.toString()\<close>, then the loop.\<close>

definition on_data :: "(jsstring \<Rightarrow> js_error + jsval) \<Rightarrow> jsstring \<Rightarrow> jsstring \<Rightarrow> jsstring \<Rightarrow> jsstring \<times> relay_action list" where
  "on_data parse jobId buffer chunk = drain_lines parse jobId (buffer @ chunk)"

text \<open>Two chunks in order on a fresh connection (\<^verbatim>\<open>let buffer = ''\<close>), with all actions.\<close>

definition on_two_chunks :: "(jsstring \<Rightarrow> js_error + jsval) \<Rightarrow> jsstring \<Rightarrow> jsstring \<Rightarrow> jsstring \<Rightarrow> jsstring \<times> relay_action list" where
  "on_two_chunks parse jobId c1 c2 =
     (let r1 = on_data parse jobId [] c1;
          r2 = on_data parse jobId (fst r1) c2
      in (fst r2, snd r1 @ snd r2))"

text \<open>The frame of the claim and the value \<^verbatim>\<open>JSON.parse\<close> gives for its payload.\<close>

definition progress_frame :: jsstring where
  "progress_frame = js ''data: {\"type\":\"progress\",\"jobId\":\"j1\",\"pct\":42}'' @ [0x0A]"

definition progress_json :: jsstring where
  "progress_json = js ''{\"type\":\"progress\",\"jobId\":\"j1\",\"pct\":42}''"

definition progress_payload :: jsval where
  "progress_payload =
     Obj [(js ''type'', Str (js ''progress'')), (js ''jobId'', Str (js ''j1'')), (js ''pct'', Num 42)]"

definition sample_parse :: "jsstring \<Rightarrow> js_error + jsval" where
  "sample_parse s =
     (if s = progress_json then Inr progress_payload else Inl (Error (js ''SyntaxError'')))"

section \<open>Job event relay: fetching the result\<close>

text \<open>
  What the worker does with one HTTP request, seen from \<^verbatim>\<open>fetch\<close>: the promise is
  rejected (no connection, or reading the body failed), or a body text arrives.
  \<^verbatim>\<open>fetchJson\<close> does not look at the status code.
\<close>

datatype http_reply =
    Failed js_error
  | Body jsstring

text \<open>\<^verbatim>\<open>fetchJson\<close> (lines 394 to 405): \<^verbatim>\<open>text ? JSON.parse(text) : {}\<close>.\<close>

definition fetchJson :: "(jsstring \<Rightarrow> js_error + jsval) \<Rightarrow> http_reply \<Rightarrow> js_error + jsval" where
  "fetchJson parse reply =
     (case reply of
        Failed err \<Rightarrow> Inl err
      | Body text \<Rightarrow> if text = [] then Inr (Obj []) else parse text)"

text \<open>
  \<^verbatim>\<open>fetchResultWithRetry\<close> (lines 407 to 420). \<open>server n\<close> is the reply to the request
  number \<open>n\<close> for the result of this job, and \<open>n\<close> counts the requests made so far; the
  delay \<^verbatim>\<open>delayMs\<close> between two requests passes no value and is left out. The result is
  what the returned promise settles to.
\<close>

fun fetchResultWithRetry ::
  "(jsstring \<Rightarrow> js_error + jsval) \<Rightarrow> (nat \<Rightarrow> http_reply) \<Rightarrow> nat \<Rightarrow> nat \<Rightarrow> js_error + jsval" where
  "fetchResultWithRetry parse server n retries =
     (case fetchJson parse (server n) of
        Inl err \<Rightarrow> Inl err
      | Inr result \<Rightarrow>
          if truthy result \<and> truthy (get_prop result (js ''ok'')) then Inr result
          else if truthy result \<and> get_prop result (js ''error'') = Str (js ''job not finished'')
                  \<and> retries > 0
          then fetchResultWithRetry parse server (n + 1) (retries - 1)
          else Inr result)"

declare fetchResultWithRetry.simps [simp del]

text \<open>The default \<^verbatim>\<open>retries = 10\<close> of the call \<^verbatim>\<open>fetchResultWithRetry(jobId)\<close>.\<close>

definition DEFAULT_RETRIES :: nat where
  "DEFAULT_RETRIES = 10"

text \<open>The two message literals of the handlers, as code units.\<close>

definition ENGINE_FAILED_MESSAGE :: jsstring where
  "ENGINE_FAILED_MESSAGE = [0x5F15, 0x64CE, 0x6267, 0x884C, 0x5931, 0x8D25]"

definition FETCH_FAILED_MESSAGE :: jsstring where
  "FETCH_FAILED_MESSAGE = [0x83B7, 0x53D6, 0x7ED3, 0x679C, 0x5931, 0x8D25]"

text \<open>
  The handlers on the promise of \<^verbatim>\<open>fetchResultWithRetry\<close> (lines 450 to 470): \<^verbatim>\<open>.then\<close>
  for a value, \<^verbatim>\<open>.catch\<close> for a rejection.
\<close>

definition on_result :: "jsstring \<Rightarrow> js_error + jsval \<Rightarrow> relay_action list" where
  "on_result jobId settled =
     (case settled of
        Inr result \<Rightarrow>
          if truthy result \<and> truthy (get_prop result (js ''ok''))
          then [Send (js ''pdf2zh:done'')
                  (Obj [(js ''jobId'', Str jobId), (js ''ok'', Bool True), (js ''result'', result)])]
          else [Send (js ''pdf2zh:error'')
                  (Obj [(js ''jobId'', Str jobId),
                        (js ''message'', or_else (get_prop result (js ''error'')) (Str ENGINE_FAILED_MESSAGE)),
                        (js ''detail'', or_else (get_prop result (js ''detail'')) (Str []))]),
                Send (js ''pdf2zh:done'')
                  (Obj [(js ''jobId'', Str jobId), (js ''ok'', Bool False)])]
      | Inl err \<Rightarrow>
          [Send (js ''pdf2zh:error'')
             (Obj [(js ''jobId'', Str jobId),
                   (js ''message'', Str FETCH_FAILED_MESSAGE),
                   (js ''detail'', Str (message_of err))]),
           Send (js ''pdf2zh:done'')
             (Obj [(js ''jobId'', Str jobId), (js ''ok'', Bool False)])])"

text \<open>
  The notifications one action of the stream handler leads to: a \<^verbatim>\<open>send\<close> is one
  notification, a result fetch gives those of its handlers once it has settled.
\<close>

definition notifications_of ::
  "(jsstring \<Rightarrow> js_error + jsval) \<Rightarrow> (nat \<Rightarrow> http_reply) \<Rightarrow> relay_action \<Rightarrow> relay_action list" where
  "notifications_of parse server a =
     (case a of
        Send channel data \<Rightarrow> [Send channel data]
      | FetchResult jobId \<Rightarrow> on_result jobId (fetchResultWithRetry parse server 0 DEFAULT_RETRIES))"

text \<open>The responses of the result endpoint that the claims name.\<close>

definition not_finished_response :: jsval where
  "not_finished_response = Obj [(js ''ok'', Bool False), (js ''error'', Str (js ''job not finished''))]"

definition success_response :: jsval where
  "success_response =
     Obj [(js ''ok'', Bool True), (js ''filename'', Str (js ''x.pdf'')), (js ''pdf_base64'', Str (js ''...''))]"

definition hard_error_response :: jsval where
  "hard_error_response = Obj [(js ''ok'', Bool False), (js ''error'', Str (js ''boom''))]"

text \<open>A response that asks for a retry: not ok, with the error \<^verbatim>\<open>job not finished\<close>.\<close>

definition is_not_finished :: "jsval \<Rightarrow> bool" where
  "is_not_finished result \<longleftrightarrow>
     truthy result \<and> \<not> truthy (get_prop result (js ''ok'')) \<and>
     get_prop result (js ''error'') = Str (js ''job not finished'')"

text \<open>A parser and servers for concrete runs: the body text is a tag for the value.\<close>

definition tag_parse :: "jsstring \<Rightarrow> js_error + jsval" where
  "tag_parse s =
     (if s = js ''N'' then Inr not_finished_response
      else if s = js ''S'' then Inr success_response
      else if s = js ''E'' then Inr hard_error_response
      else Inl (Error (js ''SyntaxError'')))"

definition server_three_then_ok :: "nat \<Rightarrow> http_reply" where
  "server_three_then_ok n = (if n < 3 then Body (js ''N'') else Body (js ''S''))"

definition server_never_finished :: "nat \<Rightarrow> http_reply" where
  "server_never_finished n = Body (js ''N'')"

definition server_two_then_error :: "nat \<Rightarrow> http_reply" where
  "server_two_then_error n = (if n < 2 then Body (js ''N'') else Body (js ''E''))"

definition server_down :: "nat \<Rightarrow> http_reply" where
  "server_down n = Failed (Error (js ''fetch failed''))"

section \<open>Renderer: the notification handlers of App\<close>

text \<open>
  The data of the three notifications and of \<^verbatim>\<open>getResult\<close>, as \<^verbatim>\<open>global.d.ts\<close> declares
  them. \<open>None\<close> is \<^verbatim>\<open>null\<close> or an absent optional field.
\<close>

record progress_data =
  p_jobId :: jsstring
  p_pct :: int
  p_stage :: jsstring
  p_message :: jsstring

record result_data =
  filename :: jsstring
  pdf_base64 :: jsstring

record done_data =
  d_jobId :: jsstring
  d_ok :: bool
  d_result :: "result_data option"

record error_data =
  e_jobId :: "jsstring option"
  e_message :: jsstring
  e_detail :: "jsstring option"

record get_result_data =
  g_ok :: bool
  g_filename :: "jsstring option"
  g_pdf_base64 :: "jsstring option"

text \<open>\<^verbatim>\<open>useState<{ filename: string; pdfBase64: string } | null>\<close>\<close>

record ui_result =
  r_filename :: jsstring
  r_pdfBase64 :: jsstring

text \<open>
  The state of the component: its \<^verbatim>\<open>useState\<close> values, the ref \<^verbatim>\<open>jobIdRef\<close>, and the
  value of the file input behind \<^verbatim>\<open>inputRef\<close> (\<open>None\<close> when the ref is empty).
\<close>

record app_state =
  selectedFilePath :: "jsstring option"
  sourceFileName :: jsstring
  isTranslating :: bool
  progressPct :: int
  statusText :: jsstring
  result :: "ui_result option"
  outputFilename :: jsstring
  jobIdRef :: "jsstring option"
  error :: jsstring
  inputValue :: "jsstring option"

text \<open>\<^verbatim>\<open>parts.filter(Boolean).join(' ')\<close> on strings: the non-empty ones, a space between.\<close>

fun join_space :: "jsstring list \<Rightarrow> jsstring" where
  "join_space [] = []"
| "join_space [x] = x"
| "join_space (x # y # ys) = x @ [0x20] @ join_space (y # ys)"

definition filter_join :: "jsstring list \<Rightarrow> jsstring" where
  "filter_join parts = join_space (filter (\<lambda>p. p \<noteq> []) parts)"

text \<open>The callback of \<^verbatim>\<open>onProgress\<close> (App.tsx lines 47 to 52).\<close>

definition onProgress :: "app_state \<Rightarrow> progress_data \<Rightarrow> app_state" where
  "onProgress st data =
     (if p_jobId data \<noteq> [] \<and> Some (p_jobId data) = jobIdRef st
      then st\<lparr>progressPct := p_pct data,
              statusText := filter_join [p_stage data, p_message data]\<rparr>
      else st)"

text \<open>
  The four updates both success branches of \<^verbatim>\<open>onDone\<close> make, and the reset of the
  input \<^verbatim>\<open>if (inputRef.current) inputRef.current.value = ''\<close>.
\<close>

definition show_result :: "app_state \<Rightarrow> jsstring \<Rightarrow> jsstring \<Rightarrow> app_state" where
  "show_result st name pdf =
     st\<lparr>result := Some \<lparr>r_filename = name, r_pdfBase64 = pdf\<rparr>,
        outputFilename := name,
        selectedFilePath := None,
        sourceFileName := [],
        inputValue := (case inputValue st of None \<Rightarrow> None | Some v \<Rightarrow> Some [])\<rparr>"

text \<open>
  The callback of \<^verbatim>\<open>onDone\<close> (lines 53 to 82). \<open>getResult\<close> is what the promise of
  \<^verbatim>\<open>window.pdf2zh.getResult(jobId)\<close> resolves to; its \<^verbatim>\<open>.then\<close> callback is applied right
  after the synchronous part. \<^verbatim>\<open>window.pdf2zh\<close> exists, or the handlers were never
  registered (line 42).
\<close>

definition onDone :: "(jsstring \<Rightarrow> get_result_data option) \<Rightarrow> app_state \<Rightarrow> done_data \<Rightarrow> app_state" where
  "onDone getResult st data =
     (if d_jobId data \<noteq> [] \<and> Some (d_jobId data) = jobIdRef st
      then let st1 = st\<lparr>isTranslating := False\<rparr> in
        (case (d_ok data, d_result data) of
           (True, Some r) \<Rightarrow> show_result st1 (filename r) (pdf_base64 r)
         | (True, None) \<Rightarrow>
             (case getResult (d_jobId data) of
                Some g \<Rightarrow>
                  (case (g_ok g, g_pdf_base64 g, g_filename g) of
                     (True, Some pdf, Some name) \<Rightarrow>
                       if pdf \<noteq> [] \<and> name \<noteq> [] then show_result st1 name pdf else st1
                   | _ \<Rightarrow> st1)
              | None \<Rightarrow> st1)
         | (False, _) \<Rightarrow> st1)
      else st)"

text \<open>
  The callback of \<^verbatim>\<open>onError\<close> (lines 83 to 89):
  \<^verbatim>\<open>!data.jobId || data.jobId === jobIdRef.current\<close>.
\<close>

definition onError :: "app_state \<Rightarrow> error_data \<Rightarrow> app_state" where
  "onError st data =
     (if e_jobId data = None \<or> e_jobId data = Some [] \<or> e_jobId data = jobIdRef st
      then st\<lparr>isTranslating := False, result := None, error := e_message data\<rparr>
      else st)"

text \<open>A state that watches the job \<^verbatim>\<open>j1\<close>, for concrete runs.\<close>

definition watching_j1 :: app_state where
  "watching_j1 =
     \<lparr>selectedFilePath = Some (js ''a.pdf''), sourceFileName = js ''a.pdf'',
      isTranslating = True, progressPct = 10, statusText = js ''translating'',
      result = None, outputFilename = js ''a (zh).pdf'', jobIdRef = Some (js ''j1''),
      error = [], inputValue = Some (js ''a.pdf'')\<rparr>"

section \<open>Lifecycle supervisor\<close>

subsection \<open>The state of the supervisor\<close>

text \<open>
  The module variables of index.js (lines 9 to 11 and 16). A child process handle is
  identified by its pid; the promise in \<^verbatim>\<open>engineServerReady\<close> by the number of the start
  attempt that made it.
\<close>

record supervisor =
  engineServerPort :: "nat option"
  engineServerProcess :: "nat option"
  engineServerReady :: "nat option"
  isStoppingEngine :: bool

text \<open>
  What the supervisor reads from its platform: \<^verbatim>\<open>process.platform === 'win32'\<close>, whether
  \<^verbatim>\<open>process.kill(target, signal)\<close> throws for a target, and the constant \<^verbatim>\<open>ENGINE_PORT\<close>
  (line 18, from the environment of the process).
\<close>

record platform =
  win32 :: bool
  kill_throws :: "int \<Rightarrow> bool"
  ENGINE_PORT :: nat

datatype signal = SIGTERM | SIGKILL

text \<open>
  What \<^verbatim>\<open>stopEngineServer\<close> does to the outside: the two log lines, the run of
  \<^verbatim>\<open>taskkill /PID pid /T /F\<close>, each call of \<^verbatim>\<open>process.kill\<close>, and the timer that sends
  SIGKILL after 1500 ms.
\<close>

datatype stop_effect =
    LogStopping nat
  | Taskkill nat
  | Kill int signal
  | KillAfterGrace nat
  | LogStopFailed

subsection \<open>stopEngineServer\<close>

text \<open>
  Lines 294 to 329. All exceptions of the body are caught: a throw of the first
  \<^verbatim>\<open>process.kill\<close> leads to the second, a throw of the second to the outer \<^verbatim>\<open>catch\<close>,
  which logs and skips the timer. The \<^verbatim>\<open>finally\<close> block runs on every path that passed
  the guard.
\<close>

definition stopEngineServer :: "platform \<Rightarrow> supervisor \<Rightarrow> supervisor \<times> stop_effect list" where
  "stopEngineServer os s =
     (case engineServerProcess s of
        None \<Rightarrow> (s, [])
      | Some pid \<Rightarrow>
          if isStoppingEngine s then (s, [])
          else
            (s\<lparr>isStoppingEngine := False,
               engineServerProcess := None,
               engineServerPort := None,
               engineServerReady := None\<rparr>,
             [LogStopping pid] @
             (if win32 os then [Taskkill pid]
              else if \<not> kill_throws os (- int pid)
                then [Kill (- int pid) SIGTERM, KillAfterGrace pid]
              else if \<not> kill_throws os (int pid)
                then [Kill (- int pid) SIGTERM, Kill (int pid) SIGTERM, KillAfterGrace pid]
              else [Kill (- int pid) SIGTERM, Kill (int pid) SIGTERM, LogStopFailed])))"

text \<open>The handler of the \<^verbatim>\<open>close\<close> event of the child (lines 368 to 373).\<close>

definition on_close :: "supervisor \<Rightarrow> supervisor" where
  "on_close s =
     s\<lparr>engineServerPort := None, engineServerReady := None, engineServerProcess := None\<rparr>"

subsection \<open>startEngineServer on the event loop\<close>

text \<open>
  \<^verbatim>\<open>startEngineServer\<close> is an async function: it runs until its next \<^verbatim>\<open>await\<close>, and
  other handlers of the single-threaded event loop run before it resumes. Each piece
  between two suspension points is one atomic step here.

  A start attempt is one run of the inner async function (lines 333 to 384); its
  promise is what \<^verbatim>\<open>engineServerReady\<close> holds. It waits for the first probe (line 334),
  then for \<^verbatim>\<open>waitForEngineHealthy\<close> (line 375), then it is settled.
\<close>

datatype start_error = CommandNotFound | HealthCheckTimeout

datatype outcome = Resolved nat | Rejected start_error

datatype phase = Probing | Polling | Settled outcome

text \<open>
  The supervisor together with the bookkeeping of a run: the attempts made so far,
  which attempt's promise each caller of \<^verbatim>\<open>startEngineServer()\<close> received, the children
  spawned and the children whose \<^verbatim>\<open>close\<close> event was handled, and the effects of all
  calls of \<^verbatim>\<open>stopEngineServer\<close>.
\<close>

record world =
  sup :: supervisor
  attempts :: "phase list"
  callers :: "(nat \<times> nat) list"
  spawned :: "nat list"
  closed :: "nat list"
  signals :: "stop_effect list"

definition idle :: supervisor where
  "idle = \<lparr>engineServerPort = None, engineServerProcess = None,
           engineServerReady = None, isStoppingEngine = False\<rparr>"

definition init :: world where
  "init = \<lparr>sup = idle, attempts = [], callers = [], spawned = [], closed = [], signals = []\<rparr>"

text \<open>
  What happens after an unhealthy first probe: \<^verbatim>\<open>resolveEngineServerCommand\<close> throws
  because no candidate is usable, or \<^verbatim>\<open>spawn\<close> returns a child with a new pid.
\<close>

datatype launch = NoCommand | Child nat

text \<open>
  The events of the loop: a caller \<open>c\<close> invokes \<^verbatim>\<open>startEngineServer()\<close>; the first probe of
  attempt \<open>a\<close> returns; the poll of attempt \<open>a\<close> returns; the \<^verbatim>\<open>close\<close> event of a child
  arrives; the application calls \<^verbatim>\<open>stopEngineServer()\<close> (\<^verbatim>\<open>before-quit\<close>, \<^verbatim>\<open>will-quit\<close>).
\<close>

datatype event =
    Call nat
  | ProbeDone nat bool launch
  | PollDone nat bool
  | Close nat
  | Stop

text \<open>
  Lines 332, 333 and 387: a caller gets the promise in flight, or starts an attempt,
  stores its promise and awaits it.
\<close>

definition startEngineServer_call :: "world \<Rightarrow> nat \<Rightarrow> world" where
  "startEngineServer_call w c =
     (case engineServerReady (sup w) of
        Some a \<Rightarrow> w\<lparr>callers := callers w @ [(c, a)]\<rparr>
      | None \<Rightarrow>
          (let a = length (attempts w)
           in w\<lparr>attempts := attempts w @ [Probing],
                sup := (sup w)\<lparr>engineServerReady := Some a\<rparr>,
                callers := callers w @ [(c, a)]\<rparr>))"

text \<open>
  A rejection of the attempt's promise resumes the caller that made the attempt in its
  \<^verbatim>\<open>catch\<close> (lines 388 to 391), which clears \<^verbatim>\<open>engineServerReady\<close>. That continuation is a
  microtask, run before the loop takes its next event, so it is part of the step that
  rejects.
\<close>

definition settle :: "world \<Rightarrow> nat \<Rightarrow> outcome \<Rightarrow> world" where
  "settle w a r =
     (let w' = w\<lparr>attempts := (attempts w)[a := Settled r]\<rparr>
      in case r of
           Resolved port \<Rightarrow> w'
         | Rejected err \<Rightarrow> w'\<lparr>sup := (sup w')\<lparr>engineServerReady := None\<rparr>\<rparr>)"

text \<open>Lines 335 to 375, from the result of the first probe to the start of the poll.\<close>

definition after_probe :: "platform \<Rightarrow> world \<Rightarrow> nat \<Rightarrow> bool \<Rightarrow> launch \<Rightarrow> world" where
  "after_probe os w a healthyBeforeStart l =
     (if healthyBeforeStart
      then settle (w\<lparr>sup := (sup w)\<lparr>engineServerPort := Some (ENGINE_PORT os)\<rparr>\<rparr>) a
                  (Resolved (ENGINE_PORT os))
      else (case l of
              NoCommand \<Rightarrow> settle w a (Rejected CommandNotFound)
            | Child pid \<Rightarrow>
                w\<lparr>sup := (sup w)\<lparr>engineServerProcess := Some pid\<rparr>,
                  spawned := spawned w @ [pid],
                  attempts := (attempts w)[a := Polling]\<rparr>))"

text \<open>Lines 376 to 383, from the result of the poll to the end of the attempt.\<close>

definition after_poll :: "platform \<Rightarrow> world \<Rightarrow> nat \<Rightarrow> bool \<Rightarrow> world" where
  "after_poll os w a healthyAfterStart =
     (if \<not> healthyAfterStart
      then (let stopped = stopEngineServer os (sup w)
            in settle (w\<lparr>sup := fst stopped, signals := signals w @ snd stopped\<rparr>) a
                      (Rejected HealthCheckTimeout))
      else settle (w\<lparr>sup := (sup w)\<lparr>engineServerPort := Some (ENGINE_PORT os)\<rparr>\<rparr>) a
                  (Resolved (ENGINE_PORT os)))"

text \<open>
  One event. \<open>None\<close> when the event cannot happen in this state: an attempt resumes
  only where it is suspended, a child is new when spawned, and its \<^verbatim>\<open>close\<close> event comes
  once.
\<close>

fun step :: "platform \<Rightarrow> world \<Rightarrow> event \<Rightarrow> world option" where
  "step os w (Call c) = Some (startEngineServer_call w c)"
| "step os w (ProbeDone a healthy l) =
     (if a < length (attempts w) \<and> attempts w ! a = Probing \<and>
         (case l of NoCommand \<Rightarrow> True | Child pid \<Rightarrow> pid \<notin> set (spawned w))
      then Some (after_probe os w a healthy l) else None)"
| "step os w (PollDone a healthy) =
     (if a < length (attempts w) \<and> attempts w ! a = Polling
      then Some (after_poll os w a healthy) else None)"
| "step os w (Close pid) =
     (if pid \<in> set (spawned w) \<and> pid \<notin> set (closed w)
      then Some (w\<lparr>sup := on_close (sup w), closed := closed w @ [pid]\<rparr>) else None)"
| "step os w Stop =
     (let stopped = stopEngineServer os (sup w)
      in Some (w\<lparr>sup := fst stopped, signals := signals w @ snd stopped\<rparr>))"

fun run :: "platform \<Rightarrow> world \<Rightarrow> event list \<Rightarrow> world option" where
  "run os w [] = Some w"
| "run os w (e # es) = (case step os w e of None \<Rightarrow> None | Some w' \<Rightarrow> run os w' es)"

subsection \<open>Single flight\<close>

text \<open>No attempt has settled yet.\<close>

definition none_settled :: "world \<Rightarrow> bool" where
  "none_settled w = list_all (\<lambda>ph. case ph of Settled r \<Rightarrow> False | _ \<Rightarrow> True) (attempts w)"

text \<open>Every call of \<^verbatim>\<open>startEngineServer()\<close> in the run is made while no attempt has settled.\<close>

fun calls_while_pending :: "platform \<Rightarrow> world \<Rightarrow> event list \<Rightarrow> bool" where
  "calls_while_pending os w [] = True"
| "calls_while_pending os w (e # es) =
     ((case e of Call c \<Rightarrow> none_settled w | _ \<Rightarrow> True) \<and>
      (case step os w e of None \<Rightarrow> True | Some w' \<Rightarrow> calls_while_pending os w' es))"

text \<open>What a caller that holds the promise of attempt \<open>a\<close> has observed so far.\<close>

definition observed :: "world \<Rightarrow> nat \<Rightarrow> outcome option" where
  "observed w a =
     (if a < length (attempts w)
      then (case attempts w ! a of Settled r \<Rightarrow> Some r | _ \<Rightarrow> None)
      else None)"

text \<open>
  The single-flight property of a run from the initial state: if all its calls are
  made while no attempt has settled, then at most one worker was spawned and all
  callers observe one outcome.
\<close>

definition single_flight :: "platform \<Rightarrow> event list \<Rightarrow> bool" where
  "single_flight os evs =
     (case run os init evs of
        None \<Rightarrow> True
      | Some w \<Rightarrow>
          calls_while_pending os init evs \<longrightarrow>
            length (spawned w) \<le> 1 \<and>
            list_all (\<lambda>x. list_all (\<lambda>y. observed w (snd x) = observed w (snd y)) (callers w))
                     (callers w))"

text \<open>The run has no \<^verbatim>\<open>close\<close> event and no call of \<^verbatim>\<open>stopEngineServer()\<close> from outside.\<close>

definition is_exit :: "event \<Rightarrow> bool" where
  "is_exit e = (case e of Close pid \<Rightarrow> True | Stop \<Rightarrow> True | _ \<Rightarrow> False)"

definition no_exit :: "event list \<Rightarrow> bool" where
  "no_exit evs = list_all (\<lambda>e. \<not> is_exit e) evs"

text \<open>
  What holds in such a run: one attempt at most, every caller holds its promise, and
  a worker was spawned only once the attempt has left its first probe.
\<close>

definition one_attempt :: "world \<Rightarrow> bool" where
  "one_attempt w \<longleftrightarrow>
     list_all (\<lambda>x. snd x = 0) (callers w) \<and>
     (case attempts w of
        [] \<Rightarrow> spawned w = [] \<and> engineServerReady (sup w) = None \<and> callers w = []
      | [Probing] \<Rightarrow> spawned w = [] \<and> engineServerReady (sup w) = Some 0
      | [Polling] \<Rightarrow> length (spawned w) = 1 \<and> engineServerReady (sup w) = Some 0
      | [Settled r] \<Rightarrow> length (spawned w) \<le> 1
      | _ \<Rightarrow> False)"

text \<open>A platform for concrete runs.\<close>

definition posix :: platform where
  "posix = \<lparr>win32 = False, kill_throws = (\<lambda>target. False), ENGINE_PORT = 18080\<rparr>"

text \<open>
  Runs for concrete checks. In the first the worker exits while the attempt that
  spawned it still polls, and a second caller arrives; the second goes on with the
  poll of the first attempt running out; in the third three callers share one attempt.
\<close>

definition crash_trace :: "event list" where
  "crash_trace =
     [Call 1, ProbeDone 0 False (Child 100), Close 100, Call 2, ProbeDone 1 False (Child 101)]"

definition stale_timeout_trace :: "event list" where
  "stale_timeout_trace = crash_trace @ [PollDone 0 False]"

definition shared_trace :: "event list" where
  "shared_trace = [Call 1, Call 2, ProbeDone 0 False (Child 100), Call 3, PollDone 0 True]"

text \<open>A supervisor that owns a healthy worker, and the world the second run ends in.\<close>

definition running :: supervisor where
  "running = \<lparr>engineServerPort = Some 18080, engineServerProcess = Some 100,
              engineServerReady = Some 0, isStoppingEngine = False\<rparr>"

definition ready_world :: world where
  "ready_world =
     \<lparr>sup = running, attempts = [Settled (Resolved 18080)],
      callers = [(1, 0), (2, 0), (3, 0)], spawned = [100], closed = [], signals = []\<rparr>"

section \<open>The start-translate handler\<close>

text \<open>
  The parameters of the request as \<^verbatim>\<open>global.d.ts\<close> types them; \<open>None\<close> is a \<^verbatim>\<open>filePath\<close> of
  \<^verbatim>\<open>null\<close> or \<^verbatim>\<open>undefined\<close>, which like the empty string fails \<^verbatim>\<open>if (!filePath)\<close>.
\<close>

record translate_params =
  filePath :: "jsstring option"
  service :: jsstring

text \<open>
  What the handler does, in order: it awaits \<^verbatim>\<open>startEngineServer()\<close>, sends a
  notification to the renderer, POSTs a body to \<^verbatim>\<open>/translate\<close>, opens the progress
  stream of a job.
\<close>

datatype handler_effect =
    EnsureEngine
  | Notify jsstring jsval
  | PostTranslate jsval
  | OpenProgressStream jsval

text \<open>
  How the handler's promise is rejected: by the error of \<^verbatim>\<open>startEngineServer()\<close>, by an
  error thrown or passed on in the handler, or by the TypeError of reading \<^verbatim>\<open>jobId\<close> of a
  \<^verbatim>\<open>null\<close> response.
\<close>

datatype handler_error =
    StartFailed start_error
  | Thrown js_error
  | TypeError

definition NO_FILE_MESSAGE :: jsstring where
  "NO_FILE_MESSAGE = [0x672A, 0x9009, 0x62E9, 0x20, 0x50, 0x44, 0x46, 0x20, 0x6587, 0x4EF6]"

definition UNSUPPORTED_SERVICE_PREFIX :: jsstring where
  "UNSUPPORTED_SERVICE_PREFIX =
     [0x4E0D, 0x652F, 0x6301, 0x7684, 0x7FFB, 0x8BD1, 0x670D, 0x52A1, 0x3A, 0x20]"

text \<open>
  The handler (lines 489 to 521). Its surroundings are parameters: \<open>basename\<close> is
  \<^verbatim>\<open>path.basename\<close>, \<open>engine\<close> is what \<^verbatim>\<open>await startEngineServer()\<close> gives, \<open>response\<close> what
  \<^verbatim>\<open>fetchJson\<close> gives for the POST. The result is the list of effects and the value the
  handler's promise settles to.
\<close>

definition start_translate ::
  "(jsstring \<Rightarrow> jsstring) \<Rightarrow> outcome \<Rightarrow> (js_error + jsval) \<Rightarrow> translate_params
     \<Rightarrow> handler_effect list \<times> (handler_error + jsval)" where
  "start_translate basename engine response params =
     (case filePath params of
        None \<Rightarrow>
          ([Notify (js ''pdf2zh:error'')
              (Obj [(js ''jobId'', Null), (js ''message'', Str NO_FILE_MESSAGE)])],
           Inr (Obj [(js ''jobId'', Null)]))
      | Some path \<Rightarrow>
          if path = [] then
            ([Notify (js ''pdf2zh:error'')
                (Obj [(js ''jobId'', Null), (js ''message'', Str NO_FILE_MESSAGE)])],
             Inr (Obj [(js ''jobId'', Null)]))
          else
            (case engine of
               Rejected err \<Rightarrow> ([EnsureEngine], Inl (StartFailed err))
             | Resolved port \<Rightarrow>
                 if service params \<noteq> js ''google'' \<and> service params \<noteq> js ''bing'' then
                   (let message = UNSUPPORTED_SERVICE_PREFIX @ service params
                    in ([EnsureEngine,
                         Notify (js ''pdf2zh:error'')
                           (Obj [(js ''jobId'', Null), (js ''message'', Str message)])],
                        Inl (Thrown (Error message))))
                 else
                   (let payload = Obj [(js ''source_path'', Str path),
                                       (js ''source_filename'', Str (basename path)),
                                       (js ''service'', Str (service params)),
                                       (js ''threads'', Num 4)]
                    in case response of
                         Inl err \<Rightarrow> ([EnsureEngine, PostTranslate payload], Inl (Thrown err))
                       | Inr Null \<Rightarrow> ([EnsureEngine, PostTranslate payload], Inl TypeError)
                       | Inr r \<Rightarrow>
                           (let jobId = get_prop r (js ''jobId'')
                            in ([EnsureEngine, PostTranslate payload] @
                                (if truthy jobId then [OpenProgressStream jobId] else []),
                                Inr (Obj [(js ''jobId'', jobId)]))))))"

text \<open>Whether the handler POSTs to \<^verbatim>\<open>/translate\<close>.\<close>

definition posts_translate :: "handler_effect list \<Rightarrow> bool" where
  "posts_translate effects = list_ex (\<lambda>e. case e of PostTranslate body \<Rightarrow> True | _ \<Rightarrow> False) effects"

text \<open>A request for a service the handler does not know, and a stand-in for \<^verbatim>\<open>path.basename\<close>.\<close>

definition deepl_request :: translate_params where
  "deepl_request = \<lparr>filePath = Some (js ''a.pdf''), service = js ''deepl''\<rparr>"

definition last_segment :: "jsstring \<Rightarrow> jsstring" where
  "last_segment path = rev (takeWhile (\<lambda>c. c \<noteq> 0x2F) (rev path))"

section \<open>Health prober\<close>

definition HEALTH_CHECK_TIMEOUT_MS :: nat where
  "HEALTH_CHECK_TIMEOUT_MS = 300"

definition HEALTH_POLL_INTERVAL_MS :: nat where
  "HEALTH_POLL_INTERVAL_MS = 200"

definition HEALTH_POLL_TOTAL_MS :: nat where
  "HEALTH_POLL_TOTAL_MS = 10000"

text \<open>
  Time is the value of \<^verbatim>\<open>Date.now()\<close> in milliseconds, passed through the functions: a
  timer of \<open>d\<close> ms fires \<open>d\<close> ms after it was set, and code between two suspension points
  takes no time.

  What the health endpoint does with one request, seen from \<^verbatim>\<open>fetch\<close>: it never
  answers; or the request fails after some milliseconds; or a response arrives, its
  body read after some milliseconds, with \<^verbatim>\<open>response.ok\<close> and the body text.
\<close>

datatype health_reply =
    NoResponse
  | NetworkError nat
  | HttpResponse nat bool jsstring

text \<open>
  \<^verbatim>\<open>fetchJsonWithTimeout\<close> (lines 100 to 111): the time it takes and what it gives. The
  abort timer rejects the fetch when \<open>timeoutMs\<close> have passed without the body.
\<close>

definition fetchJsonWithTimeout ::
  "(jsstring \<Rightarrow> js_error + jsval) \<Rightarrow> health_reply \<Rightarrow> nat \<Rightarrow> nat \<times> (js_error + bool \<times> jsval)" where
  "fetchJsonWithTimeout parse reply timeoutMs =
     (case reply of
        NoResponse \<Rightarrow> (timeoutMs, Inl (Error (js ''AbortError'')))
      | NetworkError d \<Rightarrow>
          if d < timeoutMs then (d, Inl (Error (js ''fetch failed'')))
          else (timeoutMs, Inl (Error (js ''AbortError'')))
      | HttpResponse d ok text \<Rightarrow>
          if d < timeoutMs then
            (d, if text = [] then Inr (ok, Obj [])
                else (case parse text of Inl err \<Rightarrow> Inl err | Inr payload \<Rightarrow> Inr (ok, payload)))
          else (timeoutMs, Inl (Error (js ''AbortError''))))"

text \<open>
  \<^verbatim>\<open>isEngineHealthyPayload\<close> (lines 96 to 98):
  \<^verbatim>\<open>payload && payload.status === 'ok' && typeof payload.pid === 'number'\<close>.
\<close>

definition isEngineHealthyPayload :: "jsval \<Rightarrow> bool" where
  "isEngineHealthyPayload payload \<longleftrightarrow>
     truthy payload \<and> get_prop payload (js ''status'') = Str (js ''ok'') \<and>
     (case get_prop payload (js ''pid'') of Num n \<Rightarrow> True | _ \<Rightarrow> False)"

text \<open>\<^verbatim>\<open>checkEngineHealth\<close> (lines 113 to 120): the time it takes and its answer.\<close>

definition checkEngineHealth ::
  "(jsstring \<Rightarrow> js_error + jsval) \<Rightarrow> health_reply \<Rightarrow> nat \<Rightarrow> nat \<times> bool" where
  "checkEngineHealth parse reply timeoutMs =
     (case fetchJsonWithTimeout parse reply timeoutMs of
        (elapsed, Inl err) \<Rightarrow> (elapsed, False)
      | (elapsed, Inr (ok, payload)) \<Rightarrow> (elapsed, ok \<and> isEngineHealthyPayload payload))"

text \<open>
  The loop of \<^verbatim>\<open>waitForEngineHealthy\<close> (lines 124 to 129). \<open>endpoint t\<close> is what the
  endpoint does with a probe sent at time \<open>t\<close>. The result is the time at which the
  function returns, and its value.
\<close>

function poll_loop ::
  "(jsstring \<Rightarrow> js_error + jsval) \<Rightarrow> (nat \<Rightarrow> health_reply) \<Rightarrow> nat \<Rightarrow> nat \<Rightarrow> nat \<times> bool" where
  "poll_loop parse endpoint deadline now =
     (if now < deadline then
        (let probe = checkEngineHealth parse (endpoint now) HEALTH_CHECK_TIMEOUT_MS
         in if snd probe then (now + fst probe, True)
            else poll_loop parse endpoint deadline (now + fst probe + HEALTH_POLL_INTERVAL_MS))
      else (now, False))"
  by pat_completeness auto
termination
  by (relation "measure (\<lambda>(parse, endpoint, deadline, now). deadline - now)")
     (auto simp: HEALTH_POLL_INTERVAL_MS_def)

declare poll_loop.simps [simp del]

text \<open>\<^verbatim>\<open>waitForEngineHealthy\<close> called at time \<open>now\<close> (line 123 sets the deadline).\<close>

definition waitForEngineHealthy ::
  "(jsstring \<Rightarrow> js_error + jsval) \<Rightarrow> (nat \<Rightarrow> health_reply) \<Rightarrow> nat \<Rightarrow> nat \<Rightarrow> nat \<times> bool" where
  "waitForEngineHealthy parse endpoint now timeoutMs =
     poll_loop parse endpoint (now + timeoutMs) now"

text \<open>The endpoint does not answer a request within \<open>timeoutMs\<close>.\<close>

definition silent_for :: "nat \<Rightarrow> health_reply \<Rightarrow> bool" where
  "silent_for timeoutMs reply =
     (case reply of
        NoResponse \<Rightarrow> True
      | NetworkError d \<Rightarrow> timeoutMs \<le> d
      | HttpResponse d ok text \<Rightarrow> timeoutMs \<le> d)"

text \<open>
  One start attempt run against the clock (lines 334 to 383), with the same cases as
  \<open>after_probe\<close> and \<open>after_poll\<close>: the time at which its promise settles, and the outcome.
  Resolving the command, spawning and \<^verbatim>\<open>stopEngineServer\<close> take no time.
\<close>

definition start_attempt_timed ::
  "platform \<Rightarrow> (jsstring \<Rightarrow> js_error + jsval) \<Rightarrow> (nat \<Rightarrow> health_reply) \<Rightarrow> launch \<Rightarrow> nat
     \<Rightarrow> nat \<times> outcome" where
  "start_attempt_timed os parse endpoint l now =
     (let healthyBeforeStart = checkEngineHealth parse (endpoint now) HEALTH_CHECK_TIMEOUT_MS
      in if snd healthyBeforeStart
         then (now + fst healthyBeforeStart, Resolved (ENGINE_PORT os))
         else (case l of
                 NoCommand \<Rightarrow> (now + fst healthyBeforeStart, Rejected CommandNotFound)
               | Child pid \<Rightarrow>
                   (let healthyAfterStart =
                          waitForEngineHealthy parse endpoint (now + fst healthyBeforeStart)
                            HEALTH_POLL_TOTAL_MS
                    in if \<not> snd healthyAfterStart
                       then (fst healthyAfterStart, Rejected HealthCheckTimeout)
                       else (fst healthyAfterStart, Resolved (ENGINE_PORT os)))))"

section \<open>Properties of the stream handler\<close>

lemma indexOf_append_Some:
  "indexOf xs c = Some i \<Longrightarrow> indexOf (xs @ ys) c = Some i"
  by (induction xs arbitrary: i) (auto split: if_splits)

lemma indexOf_Some_less:
  "indexOf xs c = Some i \<Longrightarrow> i < length xs"
  by (induction xs arbitrary: i) (auto split: if_splits)

lemma drain_lines_no_newline:
  "indexOf (fst (drain_lines parse jobId buffer)) 0x0A = None"
proof (induction parse jobId buffer rule: drain_lines.induct)
  case (1 parse jobId buffer)
  show ?case
  proof (cases "indexOf buffer 0x0A")
    case None
    then show ?thesis by (subst drain_lines.simps) simp
  next
    case (Some index)
    with "1.IH" [OF Some] show ?thesis
      by (subst drain_lines.simps) (simp add: Let_def)
  qed
qed

lemma drain_lines_append:
  "drain_lines parse jobId (s @ t) =
     (let r1 = drain_lines parse jobId s;
          r2 = drain_lines parse jobId (fst r1 @ t)
      in (fst r2, snd r1 @ snd r2))"
proof (induction parse jobId s rule: drain_lines.induct)
  case (1 parse jobId buffer)
  show ?case
  proof (cases "indexOf buffer 0x0A")
    case None
    then have "drain_lines parse jobId buffer = (buffer, [])"
      by (subst drain_lines.simps) simp
    then show ?thesis by (simp add: Let_def)
  next
    case (Some index)
    have less: "index < length buffer"
      using Some by (rule indexOf_Some_less)
    have app: "indexOf (buffer @ t) 0x0A = Some index"
      using Some by (rule indexOf_append_Some)
    have step: "drain_lines parse jobId (buffer @ t) =
        (let rest = drain_lines parse jobId (drop (index + 1) buffer @ t)
         in (fst rest, handle_line parse jobId (trim (take index buffer)) @ snd rest))"
      using app less by (subst drain_lines.simps) (simp add: Let_def)
    have here: "drain_lines parse jobId buffer =
        (let rest = drain_lines parse jobId (drop (index + 1) buffer)
         in (fst rest, handle_line parse jobId (trim (take index buffer)) @ snd rest))"
      using Some by (subst drain_lines.simps) (simp add: Let_def)
    show ?thesis
      unfolding step here using "1.IH" [OF Some refl]
      by (simp add: Let_def)
  qed
qed

text \<open>Delivering a text in two chunks gives the actions of delivering it in one.\<close>

lemma on_two_chunks_eq:
  "on_two_chunks parse jobId c1 c2 = on_data parse jobId [] (c1 @ c2)"
  by (simp add: on_two_chunks_def on_data_def Let_def drain_lines_append [of parse jobId c1 c2])

text \<open>The frame of the claim, delivered whole.\<close>

lemma progress_frame_whole:
  assumes "parse progress_json = Inr progress_payload"
  shows "on_data parse (js ''j1'') [] progress_frame =
     ([], [Send (js ''pdf2zh:progress'')
             (Obj [(js ''jobId'', Str (js ''j1'')), (js ''type'', Str (js ''progress'')),
                   (js ''pct'', Num 42)])])"
proof -
  let ?line = "js ''data: {\"type\":\"progress\",\"jobId\":\"j1\",\"pct\":42}''"
  have nl: "indexOf progress_frame 0x0A = Some 47"
    by (simp add: progress_frame_def js_def)
  have line: "trim (take 47 progress_frame) = ?line"
    by (simp add: progress_frame_def js_def trim_def is_js_space_def)
  have rest: "drop 48 progress_frame = []"
    by (simp add: progress_frame_def js_def)
  have json: "trim (drop 5 ?line) = progress_json"
    by (simp add: progress_json_def js_def trim_def is_js_space_def)
  have handled: "handle_line parse (js ''j1'') ?line =
      [Send (js ''pdf2zh:progress'')
         (Obj [(js ''jobId'', Str (js ''j1'')), (js ''type'', Str (js ''progress'')),
               (js ''pct'', Num 42)])]"
    unfolding handle_line_def json Let_def
    using assms
    by (simp add: startsWith_def handle_payload_def progress_payload_def progress_json_def js_def)
  have empty: "drain_lines parse (js ''j1'') [] = ([], [])"
    by (subst drain_lines.simps) simp
  show ?thesis
    unfolding on_data_def
    by (subst drain_lines.simps) (simp add: nl line rest handled empty del: One_nat_def)
qed

text \<open>
  Claim C3. Let \<^verbatim>\<open>JSON.parse\<close> read the payload text of the frame
  \<^verbatim>\<open>data: {"type":"progress","jobId":"j1","pct":42}\n\<close> as the object it denotes. Then for
  every split of the frame into two chunks \<open>c1\<close> and \<open>c2\<close> delivered in order on the
  stream of job \<^verbatim>\<open>j1\<close>, the relay sends exactly one notification, on the progress
  channel, for job \<^verbatim>\<open>j1\<close> with \<^verbatim>\<open>pct\<close> 42; nothing is left in the buffer; and this is what
  the frame delivered as a single chunk gives.
\<close>

theorem chunked_progress_frame:
  assumes "parse progress_json = Inr progress_payload"
    and "c1 @ c2 = progress_frame"
  shows "on_two_chunks parse (js ''j1'') c1 c2 =
           ([], [Send (js ''pdf2zh:progress'')
                   (Obj [(js ''jobId'', Str (js ''j1'')), (js ''type'', Str (js ''progress'')),
                         (js ''pct'', Num 42)])])
         \<and> on_two_chunks parse (js ''j1'') c1 c2 = on_data parse (js ''j1'') [] progress_frame"
  using assms by (simp add: on_two_chunks_eq progress_frame_whole)

theorem chunked_progress_frame_witness:
  "sample_parse progress_json = Inr progress_payload
   \<and> js ''data: {\"type\":\"pro'' @ (js ''gress\",\"jobId\":\"j1\",\"pct\":42}'' @ [0x0A]) = progress_frame
   \<and> on_two_chunks sample_parse (js ''j1'')
        (js ''data: {\"type\":\"pro'') (js ''gress\",\"jobId\":\"j1\",\"pct\":42}'' @ [0x0A]) =
       ([], [Send (js ''pdf2zh:progress'')
               (Obj [(js ''jobId'', Str (js ''j1'')), (js ''type'', Str (js ''progress'')),
                     (js ''pct'', Num 42)])])"
proof -
  have p: "sample_parse progress_json = Inr progress_payload"
    by (simp add: sample_parse_def)
  have s: "js ''data: {\"type\":\"pro'' @ (js ''gress\",\"jobId\":\"j1\",\"pct\":42}'' @ [0x0A])
           = progress_frame"
    by (simp add: progress_frame_def js_def)
  show ?thesis
    using p s
      chunked_progress_frame [of sample_parse "js ''data: {\"type\":\"pro''"
        "js ''gress\",\"jobId\":\"j1\",\"pct\":42}'' @ [0x0A]"]
    by simp
qed

section \<open>Properties of the result fetch\<close>

lemma truthy_get_prop:
  "truthy (get_prop v k) \<Longrightarrow> truthy v"
  by (cases v) simp_all

lemma fetch_success:
  assumes "fetchJson parse (server n) = Inr res"
    and "truthy (get_prop res (js ''ok''))"
  shows "fetchResultWithRetry parse server n retries = Inr res"
  using assms truthy_get_prop [of res "js ''ok''"]
  by (subst fetchResultWithRetry.simps) simp

lemma fetch_throws:
  assumes "fetchJson parse (server n) = Inl err"
  shows "fetchResultWithRetry parse server n retries = Inl err"
  using assms by (subst fetchResultWithRetry.simps) simp

lemma fetch_retry:
  assumes "fetchJson parse (server n) = Inr res"
    and "is_not_finished res"
    and "0 < retries"
  shows "fetchResultWithRetry parse server n retries =
         fetchResultWithRetry parse server (n + 1) (retries - 1)"
  using assms by (subst fetchResultWithRetry.simps) (simp add: is_not_finished_def)

lemma fetch_final:
  assumes "fetchJson parse (server n) = Inr res"
    and "\<not> truthy (get_prop res (js ''ok''))"
    and "get_prop res (js ''error'') \<noteq> Str (js ''job not finished'') \<or> retries = 0"
  shows "fetchResultWithRetry parse server n retries = Inr res"
  using assms by (subst fetchResultWithRetry.simps) auto

text \<open>After \<open>k\<close> answers that ask for a retry, the fetch goes on with \<open>k\<close> retries less.\<close>

lemma fetch_skip:
  assumes "\<And>i. i < k \<Longrightarrow> \<exists>res. fetchJson parse (server (n + i)) = Inr res \<and> is_not_finished res"
    and "k \<le> retries"
  shows "fetchResultWithRetry parse server n retries =
         fetchResultWithRetry parse server (n + k) (retries - k)"
  using assms
proof (induction k arbitrary: n retries)
  case 0
  then show ?case by simp
next
  case (Suc k)
  from Suc.prems(1) [of 0] obtain res
    where first: "fetchJson parse (server n) = Inr res" "is_not_finished res"
    by auto
  have pos: "0 < retries"
    using Suc.prems(2) by simp
  have later: "\<And>i. i < k \<Longrightarrow>
      \<exists>res. fetchJson parse (server (n + 1 + i)) = Inr res \<and> is_not_finished res"
    using Suc.prems(1) [of "Suc _"] by simp
  have "fetchResultWithRetry parse server (n + 1) (retries - 1) =
        fetchResultWithRetry parse server (n + 1 + k) (retries - 1 - k)"
    using later Suc.prems(2) by (intro Suc.IH) simp_all
  with fetch_retry [where parse = parse and server = server and n = n, OF first pos] show ?case
    by simp
qed

lemma on_result_failure:
  assumes "\<not> truthy (get_prop res (js ''ok''))"
  shows "on_result jobId (Inr res) =
     [Send (js ''pdf2zh:error'')
        (Obj [(js ''jobId'', Str jobId),
              (js ''message'', or_else (get_prop res (js ''error'')) (Str ENGINE_FAILED_MESSAGE)),
              (js ''detail'', or_else (get_prop res (js ''detail'')) (Str []))]),
      Send (js ''pdf2zh:done'') (Obj [(js ''jobId'', Str jobId), (js ''ok'', Bool False)])]"
  using assms by (simp add: on_result_def)

lemma on_result_success:
  assumes "truthy (get_prop res (js ''ok''))"
  shows "on_result jobId (Inr res) =
     [Send (js ''pdf2zh:done'')
        (Obj [(js ''jobId'', Str jobId), (js ''ok'', Bool True), (js ''result'', res)])]"
  using assms truthy_get_prop [of res "js ''ok''"] by (simp add: on_result_def)

lemma handle_payload_done:
  assumes "get_prop payload (js ''type'') = Str (js ''done'')"
  shows "handle_payload jobId payload = [FetchResult jobId]"
  using assms by (simp add: handle_payload_def js_def)

lemma not_finished_response_retry:
  "is_not_finished not_finished_response"
  by (simp add: is_not_finished_def not_finished_response_def js_def)

lemma tag_parse_N:
  "fetchJson tag_parse (Body (js ''N'')) = Inr not_finished_response"
  by (simp add: fetchJson_def tag_parse_def js_def)

lemma tag_parse_S:
  "fetchJson tag_parse (Body (js ''S'')) = Inr success_response"
  by (simp add: fetchJson_def tag_parse_def js_def)

text \<open>
  Claim C4. After a \<^verbatim>\<open>done\<close> event, let the first three result responses be
  \<^verbatim>\<open>{"ok":false,"error":"job not finished"}\<close> and the fourth one a response whose \<^verbatim>\<open>ok\<close> is
  true. Then the relay sends exactly one notification: on the done channel, for the
  job, with \<^verbatim>\<open>ok: true\<close> and the fourth response as \<^verbatim>\<open>result\<close>. Nothing is sent for the
  three responses before it.
\<close>

theorem done_after_three_retries:
  assumes "get_prop payload (js ''type'') = Str (js ''done'')"
    and "\<forall>n<3. fetchJson parse (server n) = Inr not_finished_response"
    and "fetchJson parse (server 3) = Inr res"
    and "get_prop res (js ''ok'') = Bool True"
  shows "concat (map (notifications_of parse server) (handle_payload jobId payload)) =
     [Send (js ''pdf2zh:done'')
        (Obj [(js ''jobId'', Str jobId), (js ''ok'', Bool True), (js ''result'', res)])]"
proof -
  have ok: "truthy (get_prop res (js ''ok''))"
    using assms(4) by simp
  have "fetchResultWithRetry parse server 0 DEFAULT_RETRIES =
        fetchResultWithRetry parse server (0 + 3) (DEFAULT_RETRIES - 3)"
    using assms(2) not_finished_response_retry
    by (intro fetch_skip) (auto simp: DEFAULT_RETRIES_def)
  also have "\<dots> = Inr res"
    using assms(3) ok by (simp add: fetch_success)
  finally have "fetchResultWithRetry parse server 0 DEFAULT_RETRIES = Inr res" .
  then show ?thesis
    using ok by (simp add: handle_payload_done [OF assms(1)] notifications_of_def on_result_success)
qed

theorem done_after_three_retries_witness:
  "get_prop (Obj [(js ''type'', Str (js ''done''))]) (js ''type'') = Str (js ''done'')
   \<and> fetchJson tag_parse (server_three_then_ok 0) = Inr not_finished_response
   \<and> fetchJson tag_parse (server_three_then_ok 1) = Inr not_finished_response
   \<and> fetchJson tag_parse (server_three_then_ok 2) = Inr not_finished_response
   \<and> fetchJson tag_parse (server_three_then_ok 3) = Inr success_response
   \<and> get_prop success_response (js ''ok'') = Bool True
   \<and> concat (map (notifications_of tag_parse server_three_then_ok)
        (handle_payload (js ''j1'') (Obj [(js ''type'', Str (js ''done''))]))) =
      [Send (js ''pdf2zh:done'')
         (Obj [(js ''jobId'', Str (js ''j1'')), (js ''ok'', Bool True),
               (js ''result'', success_response)])]"
proof -
  have a: "get_prop (Obj [(js ''type'', Str (js ''done''))]) (js ''type'') = Str (js ''done'')"
    by simp
  have b: "\<forall>n<3. fetchJson tag_parse (server_three_then_ok n) = Inr not_finished_response"
    by (simp add: server_three_then_ok_def tag_parse_N)
  have c: "fetchJson tag_parse (server_three_then_ok 3) = Inr success_response"
    by (simp add: server_three_then_ok_def tag_parse_S)
  have d: "get_prop success_response (js ''ok'') = Bool True"
    by (simp add: success_response_def js_def)
  show ?thesis
    using a b c d done_after_three_retries [OF a b c d, of "js ''j1''"] by simp
qed

text \<open>
  Claim C5. Let every result response, from the first request to the one made with no
  retry left, ask for a retry (not ok, error \<^verbatim>\<open>job not finished\<close>). Then the promise of
  \<^verbatim>\<open>fetchResultWithRetry\<close> resolves to the last of these responses itself, and the
  handler of the done event reports it as a failure: the error notification carries
  the \<^verbatim>\<open>error\<close> text of that response, \<^verbatim>\<open>job not finished\<close>, and no message about a
  timeout is made up.
\<close>

theorem retries_exhausted_last_response:
  assumes "\<forall>n\<le>retries. fetchJson parse (server n) = Inr (r n) \<and> is_not_finished (r n)"
  shows "fetchResultWithRetry parse server 0 retries = Inr (r retries)
       \<and> on_result jobId (fetchResultWithRetry parse server 0 retries) =
           [Send (js ''pdf2zh:error'')
              (Obj [(js ''jobId'', Str jobId),
                    (js ''message'', Str (js ''job not finished'')),
                    (js ''detail'', or_else (get_prop (r retries) (js ''detail'')) (Str []))]),
            Send (js ''pdf2zh:done'') (Obj [(js ''jobId'', Str jobId), (js ''ok'', Bool False)])]"
proof -
  have last: "fetchJson parse (server retries) = Inr (r retries)" "is_not_finished (r retries)"
    using assms by simp_all
  have "fetchResultWithRetry parse server 0 retries =
        fetchResultWithRetry parse server (0 + retries) (retries - retries)"
    using assms by (intro fetch_skip) auto
  also have "\<dots> = Inr (r retries)"
    using last by (simp add: fetch_final is_not_finished_def)
  finally have fetched: "fetchResultWithRetry parse server 0 retries = Inr (r retries)" .
  have "on_result jobId (Inr (r retries)) =
     [Send (js ''pdf2zh:error'')
        (Obj [(js ''jobId'', Str jobId),
              (js ''message'', Str (js ''job not finished'')),
              (js ''detail'', or_else (get_prop (r retries) (js ''detail'')) (Str []))]),
      Send (js ''pdf2zh:done'') (Obj [(js ''jobId'', Str jobId), (js ''ok'', Bool False)])]"
    using last(2)
    by (simp add: on_result_failure is_not_finished_def or_else_def js_def)
  with fetched show ?thesis
    by simp
qed

theorem retries_exhausted_last_response_witness:
  "(\<forall>n. fetchJson tag_parse (server_never_finished n) = Inr not_finished_response)
   \<and> is_not_finished not_finished_response
   \<and> fetchResultWithRetry tag_parse server_never_finished 0 DEFAULT_RETRIES = Inr not_finished_response
   \<and> on_result (js ''j1'') (fetchResultWithRetry tag_parse server_never_finished 0 DEFAULT_RETRIES) =
       [Send (js ''pdf2zh:error'')
          (Obj [(js ''jobId'', Str (js ''j1'')),
                (js ''message'', Str (js ''job not finished'')),
                (js ''detail'', Str [])]),
        Send (js ''pdf2zh:done'') (Obj [(js ''jobId'', Str (js ''j1'')), (js ''ok'', Bool False)])]"
proof -
  have a: "\<forall>n\<le>DEFAULT_RETRIES.
      fetchJson tag_parse (server_never_finished n) = Inr ((\<lambda>n. not_finished_response) n)
      \<and> is_not_finished ((\<lambda>n. not_finished_response) n)"
    by (simp add: server_never_finished_def tag_parse_N not_finished_response_retry)
  have d: "or_else (get_prop not_finished_response (js ''detail'')) (Str []) = Str []"
    by (simp add: or_else_def not_finished_response_def js_def)
  note t = retries_exhausted_last_response [of DEFAULT_RETRIES tag_parse server_never_finished
      "\<lambda>n. not_finished_response" "js ''j1''", OF a]
  have t1: "fetchResultWithRetry tag_parse server_never_finished 0 DEFAULT_RETRIES
            = Inr not_finished_response"
    using t by (rule conjunct1)
  have t2: "on_result (js ''j1'') (fetchResultWithRetry tag_parse server_never_finished 0 DEFAULT_RETRIES) =
       [Send (js ''pdf2zh:error'')
          (Obj [(js ''jobId'', Str (js ''j1'')),
                (js ''message'', Str (js ''job not finished'')),
                (js ''detail'', Str [])]),
        Send (js ''pdf2zh:done'') (Obj [(js ''jobId'', Str (js ''j1'')), (js ''ok'', Bool False)])]"
    using t unfolding d by (rule conjunct2)
  have b: "\<forall>n. fetchJson tag_parse (server_never_finished n) = Inr not_finished_response"
    by (simp add: server_never_finished_def tag_parse_N)
  from b not_finished_response_retry t1 t2 show ?thesis
    by blast
qed

text \<open>
  Claim C6. Let the result fetch end, after any number \<open>k\<close> of responses that ask for a
  retry (within the retries there are), in a response that is not ok and does not ask
  for a retry, or in a failed request. Then the relay sends an error notification for
  the job and, after it, a done notification for the job with \<^verbatim>\<open>ok: false\<close>, and nothing
  else.
\<close>

theorem error_paired_with_done:
  assumes "k \<le> DEFAULT_RETRIES"
    and "\<forall>i<k. \<exists>res. fetchJson parse (server i) = Inr res \<and> is_not_finished res"
  shows "(fetchJson parse (server k) = Inr res
            \<and> \<not> truthy (get_prop res (js ''ok''))
            \<and> get_prop res (js ''error'') \<noteq> Str (js ''job not finished'')
          \<longrightarrow> notifications_of parse server (FetchResult jobId) =
               [Send (js ''pdf2zh:error'')
                  (Obj [(js ''jobId'', Str jobId),
                        (js ''message'',
                           or_else (get_prop res (js ''error'')) (Str ENGINE_FAILED_MESSAGE)),
                        (js ''detail'', or_else (get_prop res (js ''detail'')) (Str []))]),
                Send (js ''pdf2zh:done'')
                  (Obj [(js ''jobId'', Str jobId), (js ''ok'', Bool False)])])
       \<and> (fetchJson parse (server k) = Inl err
          \<longrightarrow> notifications_of parse server (FetchResult jobId) =
               [Send (js ''pdf2zh:error'')
                  (Obj [(js ''jobId'', Str jobId),
                        (js ''message'', Str FETCH_FAILED_MESSAGE),
                        (js ''detail'', Str (message_of err))]),
                Send (js ''pdf2zh:done'')
                  (Obj [(js ''jobId'', Str jobId), (js ''ok'', Bool False)])])"
proof -
  have skip: "fetchResultWithRetry parse server 0 DEFAULT_RETRIES =
              fetchResultWithRetry parse server (0 + k) (DEFAULT_RETRIES - k)"
    using assms by (intro fetch_skip) auto
  show ?thesis
  proof (intro conjI impI)
    assume h: "fetchJson parse (server k) = Inr res
        \<and> \<not> truthy (get_prop res (js ''ok''))
        \<and> get_prop res (js ''error'') \<noteq> Str (js ''job not finished'')"
    then have "fetchResultWithRetry parse server k (DEFAULT_RETRIES - k) = Inr res"
      by (simp add: fetch_final)
    with skip h show "notifications_of parse server (FetchResult jobId) =
        [Send (js ''pdf2zh:error'')
           (Obj [(js ''jobId'', Str jobId),
                 (js ''message'',
                    or_else (get_prop res (js ''error'')) (Str ENGINE_FAILED_MESSAGE)),
                 (js ''detail'', or_else (get_prop res (js ''detail'')) (Str []))]),
         Send (js ''pdf2zh:done'')
           (Obj [(js ''jobId'', Str jobId), (js ''ok'', Bool False)])]"
      by (simp add: notifications_of_def on_result_failure)
  next
    assume h: "fetchJson parse (server k) = Inl err"
    then have "fetchResultWithRetry parse server k (DEFAULT_RETRIES - k) = Inl err"
      by (simp add: fetch_throws)
    with skip show "notifications_of parse server (FetchResult jobId) =
        [Send (js ''pdf2zh:error'')
           (Obj [(js ''jobId'', Str jobId),
                 (js ''message'', Str FETCH_FAILED_MESSAGE),
                 (js ''detail'', Str (message_of err))]),
         Send (js ''pdf2zh:done'')
           (Obj [(js ''jobId'', Str jobId), (js ''ok'', Bool False)])]"
      by (simp add: notifications_of_def on_result_def)
  qed
qed

theorem error_paired_with_done_witness:
  "fetchJson tag_parse (server_two_then_error 0) = Inr not_finished_response
   \<and> fetchJson tag_parse (server_two_then_error 1) = Inr not_finished_response
   \<and> fetchJson tag_parse (server_two_then_error 2) = Inr hard_error_response
   \<and> notifications_of tag_parse server_two_then_error (FetchResult (js ''j1'')) =
       [Send (js ''pdf2zh:error'')
          (Obj [(js ''jobId'', Str (js ''j1'')), (js ''message'', Str (js ''boom'')),
                (js ''detail'', Str [])]),
        Send (js ''pdf2zh:done'') (Obj [(js ''jobId'', Str (js ''j1'')), (js ''ok'', Bool False)])]
   \<and> fetchJson tag_parse (server_down 0) = Inl (Error (js ''fetch failed''))
   \<and> notifications_of tag_parse server_down (FetchResult (js ''j1'')) =
       [Send (js ''pdf2zh:error'')
          (Obj [(js ''jobId'', Str (js ''j1'')), (js ''message'', Str FETCH_FAILED_MESSAGE),
                (js ''detail'', Str (js ''fetch failed''))]),
        Send (js ''pdf2zh:done'') (Obj [(js ''jobId'', Str (js ''j1'')), (js ''ok'', Bool False)])]"
proof -
  have n0: "fetchJson tag_parse (server_two_then_error 0) = Inr not_finished_response"
    and n1: "fetchJson tag_parse (server_two_then_error 1) = Inr not_finished_response"
    by (simp_all add: server_two_then_error_def tag_parse_N)
  have e2: "fetchJson tag_parse (server_two_then_error 2) = Inr hard_error_response"
    by (simp add: server_two_then_error_def fetchJson_def tag_parse_def js_def)
  have hard: "\<not> truthy (get_prop hard_error_response (js ''ok''))"
      "get_prop hard_error_response (js ''error'') \<noteq> Str (js ''job not finished'')"
      "or_else (get_prop hard_error_response (js ''error'')) (Str ENGINE_FAILED_MESSAGE) = Str (js ''boom'')"
      "or_else (get_prop hard_error_response (js ''detail'')) (Str []) = Str []"
    by (simp_all add: hard_error_response_def or_else_def js_def)
  have two: "(2::nat) \<le> DEFAULT_RETRIES"
    by (simp add: DEFAULT_RETRIES_def)
  have before: "\<forall>i<2. \<exists>res. fetchJson tag_parse (server_two_then_error i) = Inr res \<and> is_not_finished res"
    using not_finished_response_retry
    by (simp add: server_two_then_error_def tag_parse_N)
  have first: "notifications_of tag_parse server_two_then_error (FetchResult (js ''j1'')) =
       [Send (js ''pdf2zh:error'')
          (Obj [(js ''jobId'', Str (js ''j1'')), (js ''message'', Str (js ''boom'')),
                (js ''detail'', Str [])]),
        Send (js ''pdf2zh:done'') (Obj [(js ''jobId'', Str (js ''j1'')), (js ''ok'', Bool False)])]"
    using error_paired_with_done [OF two before, of hard_error_response "js ''j1''"] e2 hard
    by simp
  have d0: "fetchJson tag_parse (server_down 0) = Inl (Error (js ''fetch failed''))"
    by (simp add: server_down_def fetchJson_def)
  have zero: "(0::nat) \<le> DEFAULT_RETRIES"
    by simp
  have second: "notifications_of tag_parse server_down (FetchResult (js ''j1'')) =
       [Send (js ''pdf2zh:error'')
          (Obj [(js ''jobId'', Str (js ''j1'')), (js ''message'', Str FETCH_FAILED_MESSAGE),
                (js ''detail'', Str (js ''fetch failed''))]),
        Send (js ''pdf2zh:done'') (Obj [(js ''jobId'', Str (js ''j1'')), (js ''ok'', Bool False)])]"
    using error_paired_with_done [of 0 tag_parse server_down _ "js ''j1''" "Error (js ''fetch failed'')"] d0
    by simp
  from n0 n1 e2 first d0 second show ?thesis
    by blast
qed

section \<open>Properties of the renderer's handlers\<close>

text \<open>
  Claim C7. A notification carries a job id when its \<^verbatim>\<open>jobId\<close> is a non-empty string,
  which is what the handlers test. A progress or done notification whose \<^verbatim>\<open>jobId\<close> is
  not the job the component watches (\<^verbatim>\<open>jobIdRef.current\<close>) leaves the whole state of the
  component as it is, and so does an error notification that carries such a job id:
  nothing is shown and no error is raised.
\<close>

theorem foreign_job_ignored:
  assumes "jobIdRef st \<noteq> Some j"
  shows "onProgress st (pd\<lparr>p_jobId := j\<rparr>) = st
       \<and> onDone getResult st (dd\<lparr>d_jobId := j\<rparr>) = st
       \<and> (j \<noteq> [] \<longrightarrow> onError st (ed\<lparr>e_jobId := Some j\<rparr>) = st)"
  using assms by (auto simp: onProgress_def onDone_def onError_def)

theorem foreign_job_ignored_witness:
  "jobIdRef watching_j1 \<noteq> Some (js ''j2'')
   \<and> js ''j2'' \<noteq> []
   \<and> onProgress watching_j1
        \<lparr>p_jobId = js ''j2'', p_pct = 42, p_stage = js ''ocr'', p_message = js ''page 3''\<rparr>
       = watching_j1
   \<and> onDone (\<lambda>jobId. None) watching_j1
        \<lparr>d_jobId = js ''j2'', d_ok = True,
         d_result = Some \<lparr>filename = js ''x.pdf'', pdf_base64 = js ''...''\<rparr>\<rparr>
       = watching_j1
   \<and> onError watching_j1
        \<lparr>e_jobId = Some (js ''j2''), e_message = js ''boom'', e_detail = None\<rparr>
       = watching_j1"
proof -
  have a: "jobIdRef watching_j1 \<noteq> Some (js ''j2'')"
    by (simp add: watching_j1_def js_def)
  have b: "js ''j2'' \<noteq> []"
    by (simp add: js_def)
  show ?thesis
    using a b
      foreign_job_ignored [OF a,
        of "\<lparr>p_jobId = js ''j2'', p_pct = 42, p_stage = js ''ocr'', p_message = js ''page 3''\<rparr>"
           "\<lambda>jobId. None"
           "\<lparr>d_jobId = js ''j2'', d_ok = True,
             d_result = Some \<lparr>filename = js ''x.pdf'', pdf_base64 = js ''...''\<rparr>\<rparr>"
           "\<lparr>e_jobId = Some (js ''j2''), e_message = js ''boom'', e_detail = None\<rparr>"]
    by simp
qed

section \<open>Properties of the supervisor\<close>

lemmas supervisor_eval =
  init_def idle_def posix_def running_def ready_world_def startEngineServer_call_def
  after_probe_def after_poll_def settle_def on_close_def stopEngineServer_def
  none_settled_def observed_def Let_def

subsection \<open>Shutdown\<close>

text \<open>
  Claim C8. \<^verbatim>\<open>stopEngineServer\<close> never throws: every exception of its body is caught, so
  the model has no error result. A second call right after a first one, on any
  platform and in any state, changes nothing and has no effect at all: no
  \<^verbatim>\<open>taskkill\<close>, no \<^verbatim>\<open>process.kill\<close>, no timer. A call when no worker process is owned
  changes nothing and has no effect either.
\<close>

theorem shutdown_idempotent:
  "stopEngineServer os2 (fst (stopEngineServer os1 s)) = (fst (stopEngineServer os1 s), [])
   \<and> (engineServerProcess s = None \<longrightarrow> stopEngineServer os1 s = (s, []))"
  by (simp add: stopEngineServer_def split: option.splits)

theorem shutdown_idempotent_witness:
  "stopEngineServer posix running =
     (idle, [LogStopping 100, Kill (- 100) SIGTERM, KillAfterGrace 100])
   \<and> stopEngineServer posix (fst (stopEngineServer posix running)) = (idle, [])
   \<and> engineServerProcess idle = None
   \<and> stopEngineServer posix idle = (idle, [])"
proof -
  have first: "stopEngineServer posix running =
      (idle, [LogStopping 100, Kill (- 100) SIGTERM, KillAfterGrace 100])"
    by (simp add: supervisor_eval)
  have none: "engineServerProcess idle = None"
    by (simp add: idle_def)
  from shutdown_idempotent [of posix posix running] first
  have twice: "stopEngineServer posix (fst (stopEngineServer posix running)) = (idle, [])"
    by simp
  from shutdown_idempotent [of posix posix idle] none
  have never: "stopEngineServer posix idle = (idle, [])"
    by simp
  from first twice none never show ?thesis
    by blast
qed

subsection \<open>State after the worker's exit\<close>

text \<open>
  Claim C10. After the \<^verbatim>\<open>close\<close> event of the worker is handled, and likewise after a
  call of \<^verbatim>\<open>stopEngineServer\<close> that passes its guard (a process is owned and no stop is
  running), the process handle, the cached port and the start promise are all
  \<^verbatim>\<open>null\<close>. A caller of \<^verbatim>\<open>startEngineServer()\<close> that comes next does not get an earlier
  promise: a new attempt is made, it starts with the health probe, its promise is the
  one the caller receives, and that promise is not settled yet.
\<close>

theorem state_cleared_on_exit:
  assumes "step os w (Close pid) = Some w1
           \<or> (step os w Stop = Some w1
              \<and> engineServerProcess (sup w) \<noteq> None \<and> \<not> isStoppingEngine (sup w))"
  shows "engineServerProcess (sup w1) = None
       \<and> engineServerPort (sup w1) = None
       \<and> engineServerReady (sup w1) = None
       \<and> attempts (startEngineServer_call w1 c) = attempts w1 @ [Probing]
       \<and> callers (startEngineServer_call w1 c) = callers w1 @ [(c, length (attempts w1))]
       \<and> engineServerReady (sup (startEngineServer_call w1 c)) = Some (length (attempts w1))
       \<and> observed (startEngineServer_call w1 c) (length (attempts w1)) = None"
proof -
  have cleared: "engineServerProcess (sup w1) = None \<and> engineServerPort (sup w1) = None
      \<and> engineServerReady (sup w1) = None"
    using assms
    by (auto simp: on_close_def stopEngineServer_def Let_def split: if_splits)
  then show ?thesis
    by (simp add: startEngineServer_call_def observed_def Let_def)
qed

theorem state_cleared_on_exit_witness:
  "step posix ready_world (Close 100) =
     Some \<lparr>sup = idle, attempts = [Settled (Resolved 18080)],
           callers = [(1, 0), (2, 0), (3, 0)], spawned = [100], closed = [100], signals = []\<rparr>
   \<and> step posix ready_world Stop =
     Some \<lparr>sup = idle, attempts = [Settled (Resolved 18080)],
           callers = [(1, 0), (2, 0), (3, 0)], spawned = [100], closed = [],
           signals = [LogStopping 100, Kill (- 100) SIGTERM, KillAfterGrace 100]\<rparr>
   \<and> engineServerProcess (sup ready_world) \<noteq> None
   \<and> \<not> isStoppingEngine (sup ready_world)
   \<and> attempts (startEngineServer_call
        \<lparr>sup = idle, attempts = [Settled (Resolved 18080)],
         callers = [(1, 0), (2, 0), (3, 0)], spawned = [100], closed = [100], signals = []\<rparr> 4)
       = [Settled (Resolved 18080), Probing]
   \<and> callers (startEngineServer_call
        \<lparr>sup = idle, attempts = [Settled (Resolved 18080)],
         callers = [(1, 0), (2, 0), (3, 0)], spawned = [100], closed = [100], signals = []\<rparr> 4)
       = [(1, 0), (2, 0), (3, 0), (4, 1)]
   \<and> attempts (startEngineServer_call
        \<lparr>sup = idle, attempts = [Settled (Resolved 18080)],
         callers = [(1, 0), (2, 0), (3, 0)], spawned = [100], closed = [],
         signals = [LogStopping 100, Kill (- 100) SIGTERM, KillAfterGrace 100]\<rparr> 4)
       = [Settled (Resolved 18080), Probing]"
proof -
  let ?closed = "\<lparr>sup = idle, attempts = [Settled (Resolved 18080)],
      callers = [(1, 0), (2, 0), (3, 0)], spawned = [100], closed = [100], signals = []\<rparr>"
  let ?stopped = "\<lparr>sup = idle, attempts = [Settled (Resolved 18080)],
      callers = [(1, 0), (2, 0), (3, 0)], spawned = [100], closed = [],
      signals = [LogStopping 100, Kill (- 100) SIGTERM, KillAfterGrace 100]\<rparr>"
  have a: "step posix ready_world (Close 100) = Some ?closed"
    by (simp add: supervisor_eval)
  have b: "step posix ready_world Stop = Some ?stopped"
    by (simp add: supervisor_eval)
  have g: "engineServerProcess (sup ready_world) \<noteq> None" "\<not> isStoppingEngine (sup ready_world)"
    by (simp_all add: supervisor_eval)
  from state_cleared_on_exit [of posix ready_world 100 ?closed 4] a
  have c: "attempts (startEngineServer_call ?closed 4) = [Settled (Resolved 18080), Probing]"
    "callers (startEngineServer_call ?closed 4) = [(1, 0), (2, 0), (3, 0), (4, 1)]"
    by simp_all
  from state_cleared_on_exit [of posix ready_world _ ?stopped 4] b g
  have d: "attempts (startEngineServer_call ?stopped 4) = [Settled (Resolved 18080), Probing]"
    by simp
  from a b g c d show ?thesis
    by blast
qed

subsection \<open>Single flight\<close>

lemma one_attempt_cases:
  "one_attempt w \<longleftrightarrow>
     list_all (\<lambda>x. snd x = 0) (callers w) \<and>
     ((attempts w = [] \<and> spawned w = [] \<and> engineServerReady (sup w) = None \<and> callers w = [])
      \<or> (attempts w = [Probing] \<and> spawned w = [] \<and> engineServerReady (sup w) = Some 0)
      \<or> (attempts w = [Polling] \<and> length (spawned w) = 1 \<and> engineServerReady (sup w) = Some 0)
      \<or> (\<exists>r. attempts w = [Settled r] \<and> length (spawned w) \<le> 1))"
  by (auto simp: one_attempt_def split: list.splits phase.splits)

lemma one_attempt_probing:
  assumes "one_attempt w" and "a < length (attempts w)" and "attempts w ! a = Probing"
  shows "a = 0 \<and> attempts w = [Probing] \<and> spawned w = [] \<and> engineServerReady (sup w) = Some 0
         \<and> list_all (\<lambda>x. snd x = 0) (callers w)"
  using assms unfolding one_attempt_cases by auto

lemma one_attempt_polling:
  assumes "one_attempt w" and "a < length (attempts w)" and "attempts w ! a = Polling"
  shows "a = 0 \<and> attempts w = [Polling] \<and> length (spawned w) = 1
         \<and> list_all (\<lambda>x. snd x = 0) (callers w)"
  using assms unfolding one_attempt_cases by auto

lemma one_attempt_call:
  assumes "one_attempt w" and "none_settled w"
  shows "one_attempt (startEngineServer_call w c)"
proof -
  from assms(1) have c0: "list_all (\<lambda>x. snd x = 0) (callers w)"
    and shape: "(attempts w = [] \<and> spawned w = [] \<and> engineServerReady (sup w) = None)
      \<or> (attempts w = [Probing] \<and> spawned w = [] \<and> engineServerReady (sup w) = Some 0)
      \<or> (attempts w = [Polling] \<and> length (spawned w) = 1 \<and> engineServerReady (sup w) = Some 0)
      \<or> (\<exists>r. attempts w = [Settled r])"
    unfolding one_attempt_cases by auto
  from shape show ?thesis
  proof (elim disjE conjE exE)
    assume "attempts w = []" "spawned w = []" "engineServerReady (sup w) = None"
    then show ?thesis
      using c0 by (simp add: one_attempt_cases startEngineServer_call_def Let_def)
  next
    assume "attempts w = [Probing]" "spawned w = []" "engineServerReady (sup w) = Some 0"
    then show ?thesis
      using c0 by (simp add: one_attempt_cases startEngineServer_call_def)
  next
    assume "attempts w = [Polling]" "length (spawned w) = 1" "engineServerReady (sup w) = Some 0"
    then show ?thesis
      using c0 by (simp add: one_attempt_cases startEngineServer_call_def)
  next
    fix r assume "attempts w = [Settled r]"
    with assms(2) show ?thesis
      by (simp add: none_settled_def)
  qed
qed

lemma one_attempt_probe:
  assumes "one_attempt w" and "step os w (ProbeDone a healthy l) = Some w'"
  shows "one_attempt w'"
proof -
  from assms(2) have en: "a < length (attempts w)" "attempts w ! a = Probing"
    and w': "w' = after_probe os w a healthy l"
    by (simp_all split: if_splits)
  note p = one_attempt_probing [OF assms(1) en]
  show ?thesis
  proof (cases healthy)
    case True
    with p show ?thesis
      by (simp add: w' one_attempt_cases after_probe_def settle_def Let_def)
  next
    case False
    with p show ?thesis
      by (cases l) (simp_all add: w' one_attempt_cases after_probe_def settle_def Let_def)
  qed
qed

lemma one_attempt_poll:
  assumes "one_attempt w" and "step os w (PollDone a healthy) = Some w'"
  shows "one_attempt w'"
proof -
  from assms(2) have en: "a < length (attempts w)" "attempts w ! a = Polling"
    and w': "w' = after_poll os w a healthy"
    by (simp_all split: if_splits)
  note p = one_attempt_polling [OF assms(1) en]
  show ?thesis
    using p by (cases healthy) (simp_all add: w' one_attempt_cases after_poll_def settle_def Let_def)
qed

lemma one_attempt_step:
  assumes "one_attempt w" and "\<not> is_exit e"
    and "case e of Call c \<Rightarrow> none_settled w | _ \<Rightarrow> True"
    and "step os w e = Some w'"
  shows "one_attempt w'"
proof (cases e)
  case (Call c)
  with assms show ?thesis by (auto simp: one_attempt_call)
next
  case (ProbeDone a healthy l)
  with assms(1,4) show ?thesis by (auto intro: one_attempt_probe)
next
  case (PollDone a healthy)
  with assms(1,4) show ?thesis by (auto intro: one_attempt_poll)
next
  case (Close pid)
  with assms(2) show ?thesis by (simp add: is_exit_def)
next
  case Stop
  with assms(2) show ?thesis by (simp add: is_exit_def)
qed

lemma one_attempt_run:
  assumes "one_attempt w" and "no_exit evs" and "calls_while_pending os w evs"
    and "run os w evs = Some w'"
  shows "one_attempt w'"
  using assms
proof (induction evs arbitrary: w)
  case Nil
  then show ?case by simp
next
  case (Cons e es)
  from Cons.prems(4) obtain w1 where s: "step os w e = Some w1" and r: "run os w1 es = Some w'"
    by (auto split: option.splits)
  have "one_attempt w1"
    using Cons.prems(1,2,3) s by (intro one_attempt_step [of w e os w1]) (auto simp: no_exit_def)
  moreover have "no_exit es" "calls_while_pending os w1 es"
    using Cons.prems(2,3) s by (auto simp: no_exit_def)
  ultimately show ?case
    using r by (intro Cons.IH)
qed

lemma one_attempt_init: "one_attempt init"
  by (simp add: one_attempt_def init_def idle_def)

lemma one_attempt_same:
  assumes "one_attempt w"
  shows "length (spawned w) \<le> 1 \<and>
     list_all (\<lambda>x. list_all (\<lambda>y. observed w (snd x) = observed w (snd y)) (callers w)) (callers w)"
  using assms by (auto simp: one_attempt_cases list_all_iff)

text \<open>
  Where the guard of line 332 does its work: in a run from the initial state in which
  every call of \<^verbatim>\<open>startEngineServer()\<close> is made while no attempt has settled, and in which
  no \<^verbatim>\<open>close\<close> event is handled and \<^verbatim>\<open>stopEngineServer()\<close> is not called from outside the
  attempt, at most one worker is spawned and all callers hold the promise of the one
  attempt.
\<close>

lemma single_flight_without_exit:
  assumes "no_exit evs"
  shows "single_flight os evs"
proof (cases "run os init evs")
  case None
  then show ?thesis by (simp add: single_flight_def)
next
  case (Some w)
  show ?thesis
    unfolding single_flight_def Some
    using one_attempt_same [OF one_attempt_run [OF one_attempt_init assms _ Some]]
    by simp
qed

lemma shared_trace_single_flight:
  "run posix init shared_trace = Some ready_world \<and> single_flight posix shared_trace"
proof -
  have n: "no_exit shared_trace"
    by (simp add: shared_trace_def no_exit_def is_exit_def)
  have r: "run posix init shared_trace = Some ready_world"
    by (simp add: shared_trace_def supervisor_eval)
  from r single_flight_without_exit [OF n, of posix] show ?thesis
    by blast
qed

text \<open>
  Claim C1: for all calls of \<^verbatim>\<open>startEngineServer()\<close> issued while no attempt has resolved,
  at most one worker process is spawned and every caller observes the same outcome.
  The code breaks it in the following run. The first caller's attempt finds no engine
  and spawns worker 100. The worker exits at once, and its \<^verbatim>\<open>close\<close> handler (lines 368
  to 373) clears \<^verbatim>\<open>engineServerReady\<close> while that attempt still awaits its poll. A
  second caller then passes the guard of line 332, starts a second attempt, and that
  one spawns worker 101: no attempt has settled, two workers were spawned, and the two
  callers hold different promises. When the poll of the first attempt then runs out,
  its \<^verbatim>\<open>stopEngineServer()\<close> kills worker 101, the worker of the second attempt, and
  clears the promise of the second attempt.
\<close>

theorem close_during_start_spawns_second_worker:
  "run posix init crash_trace =
     Some \<lparr>sup = \<lparr>engineServerPort = None, engineServerProcess = Some 101,
                     engineServerReady = Some 1, isStoppingEngine = False\<rparr>,
           attempts = [Polling, Polling], callers = [(1, 0), (2, 1)],
           spawned = [100, 101], closed = [100], signals = []\<rparr>
   \<and> calls_while_pending posix init crash_trace
   \<and> run posix init stale_timeout_trace =
     Some \<lparr>sup = idle,
           attempts = [Settled (Rejected HealthCheckTimeout), Polling],
           callers = [(1, 0), (2, 1)],
           spawned = [100, 101], closed = [100],
           signals = [LogStopping 101, Kill (- 101) SIGTERM, KillAfterGrace 101]\<rparr>"
  by (simp add: crash_trace_def stale_timeout_trace_def supervisor_eval)

text \<open>
  In terms of \<open>single_flight\<close>: the run meets its condition, all calls are made while no
  attempt has settled, and fails its conclusion.
\<close>

theorem single_flight_counterexample:
  "run posix init crash_trace =
     Some \<lparr>sup = \<lparr>engineServerPort = None, engineServerProcess = Some 101,
                     engineServerReady = Some 1, isStoppingEngine = False\<rparr>,
           attempts = [Polling, Polling], callers = [(1, 0), (2, 1)],
           spawned = [100, 101], closed = [100], signals = []\<rparr>
   \<and> calls_while_pending posix init crash_trace
   \<and> \<not> single_flight posix crash_trace"
proof -
  have r: "run posix init crash_trace =
     Some \<lparr>sup = \<lparr>engineServerPort = None, engineServerProcess = Some 101,
                     engineServerReady = Some 1, isStoppingEngine = False\<rparr>,
           attempts = [Polling, Polling], callers = [(1, 0), (2, 1)],
           spawned = [100, 101], closed = [100], signals = []\<rparr>"
    by (simp add: crash_trace_def supervisor_eval)
  have c: "calls_while_pending posix init crash_trace"
    by (simp add: crash_trace_def supervisor_eval)
  show ?thesis
    using r c by (simp add: single_flight_def)
qed

section \<open>Properties of the start-translate handler\<close>

text \<open>
  Claim C9. Take a request with a non-empty \<^verbatim>\<open>filePath\<close> and a \<^verbatim>\<open>service\<close> that is neither
  \<^verbatim>\<open>google\<close> nor \<^verbatim>\<open>bing\<close>. Whatever the engine and the worker do, the first thing the
  handler does is to await \<^verbatim>\<open>startEngineServer()\<close>, its promise is rejected, and it never
  POSTs to \<^verbatim>\<open>/translate\<close>. When the engine is running (the await gave a port), the handler
  does exactly two things, in this order: the await, and one error notification with
  \<^verbatim>\<open>jobId\<close> \<^verbatim>\<open>null\<close> and the message that names the service; it then throws an error with
  that message.
\<close>

theorem unsupported_service_rejected:
  assumes "filePath params = Some path" and "path \<noteq> []"
    and "service params \<noteq> js ''google''" and "service params \<noteq> js ''bing''"
  shows "take 1 (fst (start_translate basename engine response params)) = [EnsureEngine]
       \<and> \<not> posts_translate (fst (start_translate basename engine response params))
       \<and> (\<exists>err. snd (start_translate basename engine response params) = Inl err)
       \<and> (engine = Resolved port \<longrightarrow>
            start_translate basename engine response params =
              ([EnsureEngine,
                Notify (js ''pdf2zh:error'')
                  (Obj [(js ''jobId'', Null),
                        (js ''message'', Str (UNSUPPORTED_SERVICE_PREFIX @ service params))])],
               Inl (Thrown (Error (UNSUPPORTED_SERVICE_PREFIX @ service params)))))"
  using assms
  by (cases engine) (simp_all add: start_translate_def posts_translate_def Let_def)

theorem unsupported_service_rejected_witness:
  "filePath deepl_request = Some (js ''a.pdf'')
   \<and> js ''a.pdf'' \<noteq> []
   \<and> service deepl_request \<noteq> js ''google''
   \<and> service deepl_request \<noteq> js ''bing''
   \<and> start_translate last_segment (Resolved 18080) (Inr (Obj [(js ''jobId'', Str (js ''j1''))]))
        deepl_request =
       ([EnsureEngine,
         Notify (js ''pdf2zh:error'')
           (Obj [(js ''jobId'', Null),
                 (js ''message'', Str (UNSUPPORTED_SERVICE_PREFIX @ js ''deepl''))])],
        Inl (Thrown (Error (UNSUPPORTED_SERVICE_PREFIX @ js ''deepl''))))"
proof -
  have a: "filePath deepl_request = Some (js ''a.pdf'')"
    and b: "js ''a.pdf'' \<noteq> []"
    and c: "service deepl_request \<noteq> js ''google''"
    and d: "service deepl_request \<noteq> js ''bing''"
    and e: "service deepl_request = js ''deepl''"
    by (simp_all add: deepl_request_def js_def)
  from unsupported_service_rejected [OF a b c d, of last_segment "Resolved 18080"
      "Inr (Obj [(js ''jobId'', Str (js ''j1''))])" 18080]
  have f: "start_translate last_segment (Resolved 18080) (Inr (Obj [(js ''jobId'', Str (js ''j1''))]))
        deepl_request =
       ([EnsureEngine,
         Notify (js ''pdf2zh:error'')
           (Obj [(js ''jobId'', Null),
                 (js ''message'', Str (UNSUPPORTED_SERVICE_PREFIX @ js ''deepl''))])],
        Inl (Thrown (Error (UNSUPPORTED_SERVICE_PREFIX @ js ''deepl''))))"
    unfolding e by simp
  from a b c d f show ?thesis
    by blast
qed

section \<open>Properties of the health poll\<close>

lemma checkEngineHealth_silent:
  assumes "silent_for timeoutMs reply"
  shows "checkEngineHealth parse reply timeoutMs = (timeoutMs, False)"
  using assms
  by (cases reply) (simp_all add: silent_for_def checkEngineHealth_def fetchJsonWithTimeout_def)

text \<open>
  With a silent endpoint every round of the loop takes the probe timeout and the poll
  interval, 500 ms in all; a loop that starts a multiple of 500 ms before its deadline
  returns at the deadline.
\<close>

lemma poll_loop_silent:
  assumes "\<forall>t. silent_for HEALTH_CHECK_TIMEOUT_MS (endpoint t)"
    and "now \<le> deadline"
    and "(deadline - now) mod 500 = 0"
  shows "poll_loop parse endpoint deadline now = (deadline, False)"
  using assms
proof (induction parse endpoint deadline now rule: poll_loop.induct)
  case (1 parse endpoint deadline now)
  have probe: "checkEngineHealth parse (endpoint now) HEALTH_CHECK_TIMEOUT_MS =
               (HEALTH_CHECK_TIMEOUT_MS, False)"
    using "1.prems"(1) by (simp add: checkEngineHealth_silent)
  show ?case
  proof (cases "now < deadline")
    case False
    with "1.prems"(2) show ?thesis
      by (subst poll_loop.simps) simp
  next
    case True
    with "1.prems"(3) have far: "500 \<le> deadline - now"
      by (metis Suc_leI dvd_imp_le mod_0_imp_dvd zero_less_diff Suc_le_eq)
    then have le: "now + 500 \<le> deadline"
      by simp
    have "(deadline - (now + 500)) mod 500 = (deadline - now - 500) mod 500"
      by simp
    also have "\<dots> = (deadline - now) mod 500"
      using far by (simp add: le_mod_geq)
    finally have md: "(deadline - (now + 500)) mod 500 = 0"
      using "1.prems"(3) by simp
    have next_round: "now + fst (checkEngineHealth parse (endpoint now) HEALTH_CHECK_TIMEOUT_MS)
        + HEALTH_POLL_INTERVAL_MS = now + 500"
      using probe by (simp add: HEALTH_CHECK_TIMEOUT_MS_def HEALTH_POLL_INTERVAL_MS_def)
    have "poll_loop parse endpoint deadline
            (now + fst (checkEngineHealth parse (endpoint now) HEALTH_CHECK_TIMEOUT_MS)
               + HEALTH_POLL_INTERVAL_MS) = (deadline, False)"
      unfolding next_round
      using True probe "1.prems"(1) le md "1.IH" [OF True refl, unfolded next_round]
      by simp
    with True probe show ?thesis
      by (subst poll_loop.simps) (simp add: Let_def)
  qed
qed

text \<open>
  Claim C2. Let the health endpoint never answer a probe within the probe timeout of
  300 ms. Then \<^verbatim>\<open>waitForEngineHealthy\<close>, called at any time \<open>now\<close> with the total of
  10000 ms, returns \<^verbatim>\<open>false\<close>, no earlier than its deadline \<open>now + 10000\<close> and no later than
  the deadline plus one poll interval of 200 ms. Hence a start attempt that begins at
  \<open>start\<close> and spawns a worker is rejected with the health check timeout, within the
  same bounds around the deadline of its poll, which begins when the first probe has
  timed out.
\<close>

theorem startup_poll_bounded:
  assumes "\<forall>t. silent_for HEALTH_CHECK_TIMEOUT_MS (endpoint t)"
  shows "snd (waitForEngineHealthy parse endpoint now HEALTH_POLL_TOTAL_MS) = False
       \<and> now + HEALTH_POLL_TOTAL_MS
           \<le> fst (waitForEngineHealthy parse endpoint now HEALTH_POLL_TOTAL_MS)
       \<and> fst (waitForEngineHealthy parse endpoint now HEALTH_POLL_TOTAL_MS)
           \<le> now + HEALTH_POLL_TOTAL_MS + HEALTH_POLL_INTERVAL_MS
       \<and> snd (start_attempt_timed os parse endpoint (Child pid) start) = Rejected HealthCheckTimeout
       \<and> start + HEALTH_CHECK_TIMEOUT_MS + HEALTH_POLL_TOTAL_MS
           \<le> fst (start_attempt_timed os parse endpoint (Child pid) start)
       \<and> fst (start_attempt_timed os parse endpoint (Child pid) start)
           \<le> start + HEALTH_CHECK_TIMEOUT_MS + HEALTH_POLL_TOTAL_MS + HEALTH_POLL_INTERVAL_MS"
proof -
  have poll: "poll_loop parse endpoint (t + HEALTH_POLL_TOTAL_MS) t =
        (t + HEALTH_POLL_TOTAL_MS, False)" for t
    using assms by (intro poll_loop_silent) (simp_all add: HEALTH_POLL_TOTAL_MS_def)
  have probe: "checkEngineHealth parse (endpoint start) HEALTH_CHECK_TIMEOUT_MS =
               (HEALTH_CHECK_TIMEOUT_MS, False)"
    using assms by (simp add: checkEngineHealth_silent)
  show ?thesis
    by (simp add: waitForEngineHealthy_def start_attempt_timed_def poll probe Let_def)
qed

theorem startup_poll_bounded_witness:
  "(\<forall>t. silent_for HEALTH_CHECK_TIMEOUT_MS ((\<lambda>t. NoResponse) t))
   \<and> snd (waitForEngineHealthy sample_parse (\<lambda>t. NoResponse) 0 HEALTH_POLL_TOTAL_MS) = False
   \<and> (10000::nat) \<le> fst (waitForEngineHealthy sample_parse (\<lambda>t. NoResponse) 0 HEALTH_POLL_TOTAL_MS)
   \<and> fst (waitForEngineHealthy sample_parse (\<lambda>t. NoResponse) 0 HEALTH_POLL_TOTAL_MS) \<le> (10200::nat)
   \<and> snd (start_attempt_timed posix sample_parse (\<lambda>t. NoResponse) (Child 100) 0)
       = Rejected HealthCheckTimeout
   \<and> (10300::nat) \<le> fst (start_attempt_timed posix sample_parse (\<lambda>t. NoResponse) (Child 100) 0)
   \<and> fst (start_attempt_timed posix sample_parse (\<lambda>t. NoResponse) (Child 100) 0) \<le> (10500::nat)"
proof -
  have a: "\<forall>t. silent_for HEALTH_CHECK_TIMEOUT_MS ((\<lambda>t. NoResponse) t)"
    by (simp add: silent_for_def)
  from startup_poll_bounded [OF a, of sample_parse 0 posix 100 0] a show ?thesis
    by (simp add: HEALTH_POLL_TOTAL_MS_def HEALTH_POLL_INTERVAL_MS_def HEALTH_CHECK_TIMEOUT_MS_def)
qed

end
